theory Spec2Isabelle
  imports Complex_Main "HOL-Library.AList"
begin

section \<open>Python values used by \<open>src/tasks.py\<close>\<close>

text \<open>
  Python strings are modelled as \<open>string\<close>, unbounded integers as \<open>int\<close>, floats as
  \<open>real\<close>. A \<open>dict\<close> whose iteration order matters is an association list that is only
  ever changed with \<open>AList.update\<close> (an existing key keeps its position, a new key goes to
  the end, as in Python); a \<open>dict\<close> that is only looked up is a map.
\<close>

datatype error =
    FileNotFoundError
  | ValueError
  | IndexError
  | KeyError
  | AssertionError
  | AttributeError
  | NotImplementedError

text \<open>\<open>str.startswith\<close>.\<close>

definition startswith :: "string \<Rightarrow> string \<Rightarrow> bool" where
  "startswith s p = (take (length p) s = p)"

text \<open>
  \<open>str.isspace\<close> on one character, for the characters a \<open>char\<close> can hold:
  TAB, LF, VT, FF, CR, FS, GS, RS, US, SPACE, NEL and NBSP.
\<close>

definition isspace :: "char \<Rightarrow> bool" where
  "isspace c = (of_char c \<in> {9, 10, 11, 12, 13, 28, 29, 30, 31, 32, 133, 160 :: nat})"

text \<open>\<open>str.strip()\<close> with no argument.\<close>

definition strip :: "string \<Rightarrow> string" where
  "strip s = rev (dropWhile isspace (rev (dropWhile isspace s)))"

text \<open>\<open>str.split(sep)\<close> for a one-character separator: \<open>n\<close> separators give \<open>n + 1\<close> pieces.\<close>

fun split_acc :: "char \<Rightarrow> string \<Rightarrow> string \<Rightarrow> string list" where
  "split_acc sep acc [] = [rev acc]"
| "split_acc sep acc (c # cs) =
     (if c = sep then rev acc # split_acc sep [] cs else split_acc sep (c # acc) cs)"

definition split_on :: "char \<Rightarrow> string \<Rightarrow> string list" where
  "split_on sep s = split_acc sep [] s"

text \<open>\<open>str.split()\<close> with no argument: runs of whitespace separate, no empty pieces.\<close>

fun split_ws_acc :: "string \<Rightarrow> string \<Rightarrow> string list" where
  "split_ws_acc acc [] = (if acc = [] then [] else [rev acc])"
| "split_ws_acc acc (c # cs) =
     (if isspace c
      then (if acc = [] then split_ws_acc [] cs else rev acc # split_ws_acc [] cs)
      else split_ws_acc (c # acc) cs)"

definition split_ws :: "string \<Rightarrow> string list" where
  "split_ws s = split_ws_acc [] s"

text \<open>\<open>sep.join(xs)\<close>.\<close>

fun join :: "string \<Rightarrow> string list \<Rightarrow> string" where
  "join sep [] = []"
| "join sep [x] = x"
| "join sep (x # y # ys) = x @ sep @ join sep (y # ys)"

text \<open>\<open>os.path.join(a, b)\<close> of \<open>posixpath\<close>, for two components.\<close>

definition os_path_join :: "string \<Rightarrow> string \<Rightarrow> string" where
  "os_path_join a b =
     (if startswith b ''/'' then b
      else if a = [] \<or> last a = CHR ''/'' then a @ b
      else a @ ''/'' @ b)"

section \<open>The task registry\<close>

text \<open>
  \<open>REGISTRY\<close> maps a task name to the tuple stored by \<open>register_task\<close>: a pair
  \<open>(cls, rel_path)\<close> or a triple \<open>(cls, rel_path, kw)\<close>.
\<close>

datatype kwval =
    KStr string
  | KInt int
  | KBool bool
  | KDict "(string \<times> string) list"

datatype ('c, 'v) entry =
    Entry2 'c string
  | Entry3 'c string "(string \<times> 'v) list"

type_synonym ('c, 'v) registry = "string \<rightharpoonup> ('c, 'v) entry"

text \<open>
  \<open>register_task(name, rel_path, **kw)(cls)\<close>: the decorator applied to a class. It
  returns the class unchanged and the updated registry. An empty \<open>kw\<close> is falsy.
\<close>

definition register_task ::
  "string \<Rightarrow> string \<Rightarrow> (string \<times> 'v) list \<Rightarrow> 'c \<Rightarrow> ('c, 'v) registry \<Rightarrow> 'c \<times> ('c, 'v) registry" where
  "register_task name rel_path kw cls REGISTRY =
     (let entry = (if kw \<noteq> [] then Entry3 cls rel_path kw else Entry2 cls rel_path)
      in (cls, REGISTRY(name \<mapsto> entry)))"

text \<open>The arity of a stored tuple.\<close>

fun entry_arity :: "('c, 'v) entry \<Rightarrow> nat" where
  "entry_arity (Entry2 _ _) = 2"
| "entry_arity (Entry3 _ _ _) = 3"

section \<open>Fields and instances\<close>

text \<open>
  The field classes come from AllenNLP and from \<open>allennlp_mods\<close>; the module only
  calls their constructors, so a field is the constructor with its arguments. An
  \<open>Instance\<close> is the dictionary of named fields it was built from.
\<close>

datatype token_indexer =
    SingleIdTokenIndexer string
  | ExternalIndexer string

type_synonym indexers = "(string \<times> token_indexer) list"

datatype meta = MetaInt int | MetaStr string

datatype field =
    TextField "string list" indexers
  | LabelField int string bool
  | NumericField real
  | MetadataField meta
  | SpanField int int field
  | ListField "field list"
  | MultiLabelField "string list" "string option" bool

type_synonym Instance = "(string \<times> field) list"

text \<open>\<open>_sentence_to_text_field(sent, indexers)\<close>: \<open>Token\<close> wraps one string.\<close>

definition sentence_to_text_field :: "string list \<Rightarrow> indexers \<Rightarrow> field" where
  "sentence_to_text_field sent ixs = TextField (map (\<lambda>t. t) sent) ixs"

section \<open>Metric aggregators\<close>

text \<open>
  The aggregator classes are external (AllenNLP and \<open>allennlp_mods.correlation\<close>). A
  task stores which aggregator each attribute holds; what \<open>get_metric(reset)\<close> returns
  in the current aggregator state is a parameter of \<open>get_metrics\<close>: \<open>rd a reset\<close> for
  an aggregator that returns one float, \<open>rd3 a reset\<close> for \<open>F1Measure\<close>, which
  returns \<open>(precision, recall, f1)\<close>.
\<close>

datatype scorer =
    CategoricalAccuracy
  | BooleanAccuracy
  | F1Measure int
  | Average
  | Correlation string
  | FastMatthews

datatype scorer_attr =
    Scorer1
  | Scorer2
  | Scorer3
  | Mcc_scorer
  | Acc_scorer
  | F1_scorer
  | Attr string

type_synonym metrics = "(string \<times> real) list"

section \<open>Edge-probing records\<close>

text \<open>
  One JSON record of an edge-probing file: a \<open>text\<close> and a \<open>targets\<close> list; a target
  has \<open>span1\<close>, possibly \<open>span2\<close>, and a \<open>label\<close> that is one string or a list of
  strings. \<open>r_targets = None\<close> is a record without the key.
\<close>

datatype edge_label = LStr string | LList "string list"

record target =
  span1 :: "int \<times> int"
  span2 :: "(int \<times> int) option"
  label :: edge_label

record edge_record =
  r_text :: string
  r_targets :: "target list option"

section \<open>Task objects\<close>

text \<open>
  A task object is the record of the attributes that the definitions below read or
  write. An attribute of option type is \<open>None\<close> while it is unset (or set to Python's
  \<open>None\<close>). The \<open>*_data_text\<close> and \<open>sentences\<close> attributes of the column-format tasks
  are filled by \<open>load_tsv\<close>, which is outside the module, and are not part of the record.
\<close>

record task =
  name :: string
  val_metric :: "string option"
  val_metric_decreases :: "bool option"
  n_classes :: "nat option"
  scorer1 :: "scorer option"
  scorer2 :: "scorer option"
  scorer3 :: "scorer option"
  mcc_scorer :: "scorer option"
  acc_scorer :: "scorer option"
  f1_scorer :: "scorer option"
  attr_scorers :: "(string \<times> scorer) list"
  max_seq_len :: int
  min_seq_len :: int
  files_by_split :: "(string \<times> string) list"
  iters_by_split :: "(string \<times> edge_record list) list"
  is_symmetric :: bool
  single_sided :: bool
  all_labels :: "string list"
  label_namespace :: "string option"
  target_indexer :: "indexers option"
  max_targ_v_size :: "int option"
  ix_to_lex_sem_dic :: "(int \<times> string) list"
  ix_to_pr_ar_str_dic :: "(int \<times> string) list"
  ix_to_logic_dic :: "(int \<times> string) list"
  ix_to_knowledge_dic :: "(int \<times> string) list"

text \<open>\<open>Task.__init__(name)\<close>: only \<open>name\<close> is set.\<close>

definition Task_init :: "string \<Rightarrow> task" where
  "Task_init nm =
     \<lparr> name = nm, val_metric = None, val_metric_decreases = None, n_classes = None,
       scorer1 = None, scorer2 = None, scorer3 = None,
       mcc_scorer = None, acc_scorer = None, f1_scorer = None, attr_scorers = [],
       max_seq_len = 0, min_seq_len = 0, files_by_split = [], iters_by_split = [],
       is_symmetric = False, single_sided = False, all_labels = [],
       label_namespace = None, target_indexer = None, max_targ_v_size = None,
       ix_to_lex_sem_dic = [], ix_to_pr_ar_str_dic = [], ix_to_logic_dic = [],
       ix_to_knowledge_dic = [] \<rparr>"

definition ClassificationTask_init :: "string \<Rightarrow> task" where
  "ClassificationTask_init nm = Task_init nm"




definition PairClassificationTask_init :: "string \<Rightarrow> nat \<Rightarrow> task" where
  "PairClassificationTask_init nm n =
     (let self = ClassificationTask_init nm;
          self = self\<lparr>n_classes := Some n\<rparr>;
          self = self\<lparr>scorer1 := Some CategoricalAccuracy\<rparr>;
          self = self\<lparr>scorer2 := None\<rparr>;
          self = self\<lparr>val_metric := Some (name self @ ''_accuracy'')\<rparr>;
          self = self\<lparr>val_metric_decreases := Some False\<rparr>
      in self)"



definition SequenceGenerationTask_init :: "string \<Rightarrow> task" where
  "SequenceGenerationTask_init nm =
     (let self = Task_init nm;
          self = self\<lparr>scorer1 := Some Average\<rparr>;
          self = self\<lparr>scorer2 := None\<rparr>;
          self = self\<lparr>val_metric := Some (name self @ ''_bleu'')\<rparr>;
          self = self\<lparr>val_metric_decreases := Some False\<rparr>
      in self)"

section \<open>What the module takes from \<open>utils\<close> and from the file system\<close>

text \<open>
  \<open>utils.py\<close> is not part of the module. Its constants and functions are parameters:
  the sentinel tokens, \<open>process_sentence(sent, max_seq_len, sos_tok, eos_tok)\<close> (the
  tokenizer), the class name of the tokenizer, and the two readers \<open>load_json_data\<close> and
  \<open>load_lines\<close>. \<open>START_SYMBOL\<close> and \<open>END_SYMBOL\<close> are the constants of
  \<open>allennlp.common.util\<close>. \<open>open_file\<close> is the file system: the rows of the file at a path, or
  \<open>None\<close> when \<open>open\<close> fails. \<open>int_of_str\<close> is Python's \<open>int\<close> on a string,
  \<open>None\<close> when it raises \<open>ValueError\<close>. Where the module calls
  \<open>process_sentence(sent, max_seq_len)\<close> with two arguments, the sentinels are the
  defaults \<open>SOS_TOK\<close> and \<open>EOS_TOK\<close>. A character of a string is one \<open>char\<close>, so
  \<open>len\<close> of a string is \<open>length\<close>.
\<close>

record externals =
  SOS_TOK :: string
  EOS_TOK :: string
  START_SYMBOL :: string
  END_SYMBOL :: string
  process_sentence :: "string \<Rightarrow> int \<Rightarrow> string \<Rightarrow> string \<Rightarrow> string list"
  TOKENIZER_class_name :: string
  load_json_data :: "string \<Rightarrow> edge_record list option"
  load_lines :: "string \<Rightarrow> string list option"
  open_file :: "string \<Rightarrow> string list option"
  int_of_str :: "string \<Rightarrow> int option"

text \<open>
  A generator that is run to its end: the items it yielded, and the exception that ended
  it, if one did.
\<close>

type_synonym 'a gen = "'a list \<times> error option"

text \<open>Running one generator after another: the second one starts only if the first returned.\<close>

fun gen_then :: "'a gen \<Rightarrow> 'a gen \<Rightarrow> 'a gen" where
  "gen_then (ys, Some e) g = (ys, Some e)"
| "gen_then (ys, None) (zs, e) = (ys @ zs, e)"

section \<open>EdgeProbingTask\<close>

definition tokenizer_name :: "externals \<Rightarrow> string" where
  "tokenizer_name U = TOKENIZER_class_name U"

definition tokenizer_suffix :: "externals \<Rightarrow> string" where
  "tokenizer_suffix U = ''.retokenized.'' @ tokenizer_name U"

text \<open>\<open>not record.get('targets', None)\<close>: a missing or empty list is falsy.\<close>

definition no_targets :: "edge_record \<Rightarrow> bool" where
  "no_targets r = (case r_targets r of None \<Rightarrow> True | Some ts \<Rightarrow> ts = [])"

text \<open>
  The loop of \<open>_stream_records\<close> over the records of a file, with its two counters. It
  returns the records it yields and the final \<open>(skip_ctr, total_ctr)\<close>.
\<close>

fun stream_records_loop :: "edge_record list \<Rightarrow> nat \<Rightarrow> nat \<Rightarrow> edge_record list \<times> nat \<times> nat" where
  "stream_records_loop [] skip_ctr total_ctr = ([], skip_ctr, total_ctr)"
| "stream_records_loop (r # rs) skip_ctr total_ctr =
     (let total_ctr = total_ctr + 1 in
      if no_targets r then stream_records_loop rs (skip_ctr + 1) total_ctr
      else (case stream_records_loop rs skip_ctr total_ctr of
              (ys, s, t) \<Rightarrow> (r # ys, s, t)))"

text \<open>
  \<open>_stream_records(filename)\<close>, consumed by \<open>list(...)\<close>: the records yielded and the
  numbers of the log line \<open>(Read, Skip, Total)\<close>.
\<close>

definition stream_records :: "externals \<Rightarrow> string \<Rightarrow> error + (edge_record list \<times> nat \<times> nat \<times> nat)" where
  "stream_records U filename =
     (case load_json_data U filename of
        None \<Rightarrow> Inl FileNotFoundError
      | Some recs \<Rightarrow>
          (case stream_records_loop recs 0 0 of
             (ys, skip_ctr, total_ctr) \<Rightarrow> Inr (ys, total_ctr - skip_ctr, skip_ctr, total_ctr)))"

text \<open>\<open>EdgeProbingTask.load_data\<close>: one materialised list of records per split.\<close>

fun EdgeProbingTask_load_data_loop ::
  "externals \<Rightarrow> (string \<times> string) list \<Rightarrow> (string \<times> edge_record list) list
     \<Rightarrow> error + (string \<times> edge_record list) list" where
  "EdgeProbingTask_load_data_loop U [] iters = Inr iters"
| "EdgeProbingTask_load_data_loop U ((split, filename) # rest) iters =
     (case stream_records U filename of
        Inl e \<Rightarrow> Inl e
      | Inr (it, _) \<Rightarrow> EdgeProbingTask_load_data_loop U rest (AList.update split it iters))"

definition EdgeProbingTask_load_data :: "externals \<Rightarrow> task \<Rightarrow> error + (string \<times> edge_record list) list" where
  "EdgeProbingTask_load_data U self = EdgeProbingTask_load_data_loop U (files_by_split self) []"

text \<open>
  \<open>EdgeProbingTask.__init__(path, max_seq_len, name, label_file, files_by_split,
  is_symmetric, single_sided)\<close>. The two \<open>assert\<close>s and the two file reads can fail.
  The argument \<open>files_by_split\<close> is a dictionary, given by its items in order; the
  dictionary comprehension maps over them.
\<close>

definition EdgeProbingTask_init ::
  "externals \<Rightarrow> string \<Rightarrow> int \<Rightarrow> string \<Rightarrow> string option \<Rightarrow> (string \<times> string) list option
     \<Rightarrow> bool \<Rightarrow> bool \<Rightarrow> error + task" where
  "EdgeProbingTask_init U path max_len nm label_file fbs symm single =
     (let self = Task_init nm in
      case label_file of None \<Rightarrow> Inl AssertionError | Some lf \<Rightarrow>
     (case fbs of None \<Rightarrow> Inl AssertionError | Some fs \<Rightarrow>
     (let self = self\<lparr>files_by_split :=
                   map (\<lambda>(split, fname). (split, os_path_join path fname @ tokenizer_suffix U)) fs\<rparr> in
      case EdgeProbingTask_load_data U self of Inl e \<Rightarrow> Inl e | Inr iters \<Rightarrow>
     (let self = self\<lparr>iters_by_split := iters\<rparr>;
          self = self\<lparr>max_seq_len := max_len\<rparr>;
          self = self\<lparr>is_symmetric := symm\<rparr>;
          self = self\<lparr>single_sided := single\<rparr> in
      case load_lines U (os_path_join path lf) of None \<Rightarrow> Inl FileNotFoundError | Some ls \<Rightarrow>
     (let self = self\<lparr>all_labels := ls\<rparr>;
          self = self\<lparr>n_classes := Some (length (all_labels self))\<rparr>;
          self = self\<lparr>label_namespace := Some (name self @ ''_labels'')\<rparr>;
          self = self\<lparr>mcc_scorer := Some FastMatthews\<rparr>;
          self = self\<lparr>acc_scorer := Some BooleanAccuracy\<rparr>;
          self = self\<lparr>f1_scorer := Some (F1Measure 1)\<rparr>;
          self = self\<lparr>val_metric := Some (name self @ ''_f1'')\<rparr>;
          self = self\<lparr>val_metric_decreases := Some False\<rparr>
      in Inr self)))))"

definition EdgeProbingTask_get_split_text :: "task \<Rightarrow> string \<Rightarrow> error + edge_record list" where
  "EdgeProbingTask_get_split_text self split =
     (case map_of (iters_by_split self) split of None \<Rightarrow> Inl KeyError | Some it \<Rightarrow> Inr it)"

definition EdgeProbingTask_get_num_examples :: "task \<Rightarrow> edge_record list \<Rightarrow> nat" where
  "EdgeProbingTask_get_num_examples self split_text = length split_text"

definition make_span_field :: "int \<times> int \<Rightarrow> field \<Rightarrow> int \<Rightarrow> field" where
  "make_span_field s text_field offset = SpanField (fst s + offset) (snd s - 1 + offset) text_field"

text \<open>
  Modelled from the spec: \<open>utils.wrap_singleton_string\<close>, which is not in the module.
  A label is always given as a list of strings, also when exactly one label applies.
\<close>

fun wrap_singleton_string :: "edge_label \<Rightarrow> string list" where
  "wrap_singleton_string (LStr s) = [s]"
| "wrap_singleton_string (LList ss) = ss"

text \<open>The list comprehension over \<open>t['span2']\<close>: a target without the key raises.\<close>

fun span2_fields :: "target list \<Rightarrow> field \<Rightarrow> error + field list" where
  "span2_fields [] text_field = Inr []"
| "span2_fields (t # ts) text_field =
     (case span2 t of
        None \<Rightarrow> Inl KeyError
      | Some s \<Rightarrow>
          (case span2_fields ts text_field of
             Inl e \<Rightarrow> Inl e
           | Inr fs \<Rightarrow> Inr (make_span_field s text_field 1 # fs)))"

text \<open>\<open>EdgeProbingTask.make_instance(record, idx, indexers)\<close>.\<close>

definition make_instance :: "externals \<Rightarrow> task \<Rightarrow> edge_record \<Rightarrow> int \<Rightarrow> indexers \<Rightarrow> error + Instance" where
  "make_instance U self record idx ixs =
     (let tokens = split_ws (r_text record);
          tokens = [SOS_TOK U] @ tokens @ [EOS_TOK U];
          text_field = sentence_to_text_field tokens ixs;
          d = [];
          d = AList.update ''idx'' (MetadataField (MetaInt idx)) d;
          d = AList.update ''input1'' text_field d in
      case r_targets record of None \<Rightarrow> Inl KeyError | Some targets \<Rightarrow>
     (let d = AList.update ''span1s''
                (ListField (map (\<lambda>t. make_span_field (span1 t) text_field 1) targets)) d;
          r = (if \<not> single_sided self
               then (case span2_fields targets text_field of
                       Inl e \<Rightarrow> Inl e
                     | Inr fs \<Rightarrow> Inr (AList.update ''span2s'' (ListField fs) d))
               else Inr d) in
      case r of Inl e \<Rightarrow> Inl e | Inr d \<Rightarrow>
     (let labels = map (\<lambda>t. wrap_singleton_string (label t)) targets;
          d = AList.update ''labels''
                (ListField (map (\<lambda>label_set.
                   MultiLabelField label_set (label_namespace self) False) labels)) d
      in Inr d)))"

text \<open>\<open>EdgeProbingTask.process_split\<close>: \<open>map\<close> over the records and \<open>itertools.count()\<close>.\<close>

definition EdgeProbingTask_process_split ::
  "externals \<Rightarrow> task \<Rightarrow> edge_record list \<Rightarrow> indexers \<Rightarrow> (error + Instance) list" where
  "EdgeProbingTask_process_split U self records ixs =
     map (\<lambda>(r, idx). make_instance U self r idx ixs)
         (zip records (map int [0 ..< length records]))"

text \<open>\<open>EdgeProbingTask.get_sentences\<close>: the loop over \<open>_iters_by_split.items()\<close>.\<close>

fun EdgeProbingTask_get_sentences_loop :: "(string \<times> edge_record list) list \<Rightarrow> string list list" where
  "EdgeProbingTask_get_sentences_loop [] = []"
| "EdgeProbingTask_get_sentences_loop ((split, iter) # rest) =
     (if startswith split ''test'' then EdgeProbingTask_get_sentences_loop rest
      else map (\<lambda>record. split_ws (r_text record)) iter @ EdgeProbingTask_get_sentences_loop rest)"

definition EdgeProbingTask_get_sentences :: "task \<Rightarrow> string list gen \<times> task" where
  "EdgeProbingTask_get_sentences self =
     ((EdgeProbingTask_get_sentences_loop (iters_by_split self), None), self)"

text \<open>\<open>EdgeProbingTask.get_metrics(reset)\<close>.\<close>

definition EdgeProbingTask_get_metrics ::
  "(scorer_attr \<Rightarrow> bool \<Rightarrow> real) \<Rightarrow> (scorer_attr \<Rightarrow> bool \<Rightarrow> real \<times> real \<times> real)
     \<Rightarrow> task \<Rightarrow> bool \<Rightarrow> metrics" where
  "EdgeProbingTask_get_metrics rd rd3 self reset =
     (let metrics = [];
          metrics = AList.update ''mcc'' (rd Mcc_scorer reset) metrics;
          metrics = AList.update ''acc'' (rd Acc_scorer reset) metrics in
      case rd3 F1_scorer reset of (precision, recall, f1) \<Rightarrow>
      let metrics = AList.update ''precision'' precision metrics;
          metrics = AList.update ''recall'' recall metrics;
          metrics = AList.update ''f1'' f1 metrics
      in metrics)"

section \<open>The task classes and their constructors\<close>

text \<open>Every class of the module.\<close>

datatype task_class =
    Task | ClassificationTask | RegressionTask | SingleClassificationTask
  | PairClassificationTask | EdgeProbingTask | PairRegressionTask
  | PairOrdinalRegressionTask | SequenceGenerationTask | RankingTask
  | LanguageModelingTask | WikiTextLMTask | WikiText103LMTask | BWBLMTask | SSTTask
  | RedditTask | RedditPairClassificationTask | MTDataPairClassificationTask | CoLATask
  | QQPTask | QQPAltTask | MultiNLISingleGenreTask | MultiNLIFictionTask
  | MultiNLISlateTask | MultiNLIGovernmentTask | MultiNLITelephoneTask
  | MultiNLITravelTask | MRPCTask | STSBTask | STSBAltTask | SNLITask | MultiNLITask
  | MultiNLIDiagnosticTask | NLITypeProbingTask | NLITypeProbingTaskNeg
  | NLITypeProbingTaskPrepswap | NPSTask | NLITypeProbingAltTask | MultiNLIAltTask
  | RTETask | QNLITask | QNLIAltTask | WNLITask | JOCITask | MTTask | MTDebug
  | MTTaskEnRu | MTTaskEnDe | RedditSeq2SeqTask | Wiki103Classification
  | Wiki103Seq2SeqTask | DisSentTask | DisSentWikiSingleTask | DisSentWikiBigFullTask
  | WeakGroundedTask | GroundedTask | GroundedSWTask | RecastNLITask | RecastPunTask
  | RecastNERTask | RecastVerbnetTask | RecastVerbcornerTask | RecastSentimentTask
  | RecastFactualityTask | RecastWinogenderTask | RecastLexicosynTask | RecastKGTask
  | TaggingTask | CCGTaggingTask

text \<open>
  The constructors follow the \<open>__init__\<close> methods statement by statement. The
  constructors of the column-format tasks also call \<open>load_data\<close>, which reads the
  files through \<open>load_tsv\<close> and either raises or fills the data attributes; the
  definitions give the object when it returns.
\<close>

definition LanguageModelingTask_init :: "string \<Rightarrow> int \<Rightarrow> string \<Rightarrow> task" where
  "LanguageModelingTask_init path max_len nm =
     (let self = SequenceGenerationTask_init nm;
          self = self\<lparr>scorer1 := Some Average\<rparr>;
          self = self\<lparr>scorer2 := None\<rparr>;
          self = self\<lparr>val_metric := Some (name self @ ''_perplexity'')\<rparr>;
          self = self\<lparr>val_metric_decreases := Some True\<rparr>;
          self = self\<lparr>max_seq_len := max_len\<rparr>;
          self = self\<lparr>min_seq_len := 0\<rparr>;
          self = self\<lparr>target_indexer := Some [(''words'', SingleIdTokenIndexer ''tokens'')]\<rparr>;
          self = self\<lparr>files_by_split := [(''train'', os_path_join path ''train.txt''),
                                          (''val'', os_path_join path ''valid.txt''),
                                          (''test'', os_path_join path ''test.txt'')]\<rparr>
      in self)"

definition WikiTextLMTask_init :: "string \<Rightarrow> int \<Rightarrow> string \<Rightarrow> task" where
  "WikiTextLMTask_init path max_len nm = LanguageModelingTask_init path max_len nm"





















text \<open>
  \<open>create_score_function(scorer, arg_to_scorer, tags_dict, tag_group)\<close> of
  \<open>MultiNLIDiagnosticTask.load_data_and_create_scorers\<close>: one \<open>setattr\<close> for the
  group and one for every tag whose index is not 0.
\<close>

fun create_score_function_loop ::
  "scorer \<Rightarrow> (int \<times> string) list \<Rightarrow> string \<Rightarrow> (string \<times> scorer) list \<Rightarrow> (string \<times> scorer) list" where
  "create_score_function_loop sc [] tag_group attrs = attrs"
| "create_score_function_loop sc ((index, tag) # rest) tag_group attrs =
     (if index = 0 then create_score_function_loop sc rest tag_group attrs
      else create_score_function_loop sc rest tag_group
             (AList.update (''scorer__'' @ tag_group @ ''__'' @ tag) sc attrs))"

definition create_score_function ::
  "scorer \<Rightarrow> (int \<times> string) list \<Rightarrow> string \<Rightarrow> task \<Rightarrow> task" where
  "create_score_function sc tags_dict tag_group self =
     (let self = self\<lparr>attr_scorers := AList.update (''scorer__'' @ tag_group) sc (attr_scorers self)\<rparr>
      in self\<lparr>attr_scorers := create_score_function_loop sc tags_dict tag_group (attr_scorers self)\<rparr>)"

text \<open>
  \<open>MultiNLIDiagnosticTask.__init__\<close>. The four index-to-tag dictionaries come from
  \<open>load_diagnostic_tsv\<close>, which is outside the module, and are parameters.
\<close>

definition load_data_and_create_scorers ::
  "(int \<times> string) list \<Rightarrow> (int \<times> string) list \<Rightarrow> (int \<times> string) list \<Rightarrow> (int \<times> string) list
     \<Rightarrow> task \<Rightarrow> task" where
  "load_data_and_create_scorers lex_sem pr_ar_str logic knowledge self =
     (let self = self\<lparr>ix_to_lex_sem_dic := lex_sem\<rparr>;
          self = self\<lparr>ix_to_pr_ar_str_dic := pr_ar_str\<rparr>;
          self = self\<lparr>ix_to_logic_dic := logic\<rparr>;
          self = self\<lparr>ix_to_knowledge_dic := knowledge\<rparr>;
          self = create_score_function (Correlation ''matthews'') (ix_to_lex_sem_dic self) ''lex_sem'' self;
          self = create_score_function (Correlation ''matthews'') (ix_to_pr_ar_str_dic self) ''pr_ar_str'' self;
          self = create_score_function (Correlation ''matthews'') (ix_to_logic_dic self) ''logic'' self;
          self = create_score_function (Correlation ''matthews'') (ix_to_knowledge_dic self) ''knowledge'' self
      in self)"

definition MultiNLIDiagnosticTask_init ::
  "(int \<times> string) list \<Rightarrow> (int \<times> string) list \<Rightarrow> (int \<times> string) list \<Rightarrow> (int \<times> string) list
     \<Rightarrow> string \<Rightarrow> int \<Rightarrow> string \<Rightarrow> task" where
  "MultiNLIDiagnosticTask_init lex_sem pr_ar_str logic knowledge path max_len nm =
     (let self = PairClassificationTask_init nm 3;
          self = load_data_and_create_scorers lex_sem pr_ar_str logic knowledge self
      in self)"





































section \<open>Constructing a task of a given class\<close>



section \<open>\<open>get_metrics\<close>\<close>

type_synonym rd = "scorer_attr \<Rightarrow> bool \<Rightarrow> real"
type_synonym rd3 = "scorer_attr \<Rightarrow> bool \<Rightarrow> real \<times> real \<times> real"





















section \<open>Language modeling\<close>

text \<open>
  \<open>str.replace(old, new)\<close>: the non-overlapping occurrences of \<open>old\<close>, from the left;
  an empty \<open>old\<close> matches before every character and at the end.
\<close>

function str_replace :: "string \<Rightarrow> string \<Rightarrow> string \<Rightarrow> string" where
  "str_replace old new s =
     (if old = [] then new @ concat (map (\<lambda>c. c # new) s)
      else if s = [] then []
      else if startswith s old then new @ str_replace old new (drop (length old) s)
      else hd s # str_replace old new (tl s))"
  by pat_completeness auto
termination
  by (relation "measure (\<lambda>(old, new, s). length s)") auto

declare str_replace.simps [simp del]

text \<open>The first loop of \<open>_atomic_tokenize\<close>: one \<open>replace\<close> per non-atomic token.\<close>

fun replace_all :: "string list \<Rightarrow> string \<Rightarrow> string \<Rightarrow> string" where
  "replace_all [] atomic_tok sent = sent"
| "replace_all (nonatomic_tok # rest) atomic_tok sent =
     replace_all rest atomic_tok (str_replace nonatomic_tok atomic_tok sent)"

text \<open>
  The list comprehension of \<open>_atomic_tokenize\<close>; \<open>nonatomic_toks[0]\<close> is evaluated only
  for a token equal to \<open>atomic_tok\<close> and raises on an empty list.
\<close>

definition substitute_back :: "string list \<Rightarrow> string \<Rightarrow> string list \<Rightarrow> error + string list" where
  "substitute_back nonatomic_toks atomic_tok sent =
     (if atomic_tok \<in> set sent \<and> nonatomic_toks = [] then Inl IndexError
      else Inr (map (\<lambda>t. if t = atomic_tok then nonatomic_toks ! 0 else t) sent))"

definition atomic_tokenize ::
  "externals \<Rightarrow> string \<Rightarrow> string \<Rightarrow> string list \<Rightarrow> int \<Rightarrow> error + string list" where
  "atomic_tokenize U sent atomic_tok nonatomic_toks max_len =
     (let sent = replace_all nonatomic_toks atomic_tok sent;
          sent = process_sentence U sent max_len (SOS_TOK U) (EOS_TOK U)
      in substitute_back nonatomic_toks atomic_tok sent)"

definition UNK_TOK_ALLENNLP :: string where
  "UNK_TOK_ALLENNLP = ''@@UNKNOWN@@''"

definition UNK_TOK_ATOMIC :: string where
  "UNK_TOK_ATOMIC = ''UNKNOWN''"

text \<open>\<open>LanguageModelingTask.load_data(path)\<close>: the loop over the rows of the file.\<close>

primrec LanguageModelingTask_load_data_rows :: "externals \<Rightarrow> task \<Rightarrow> string list \<Rightarrow> string list gen" where
  "LanguageModelingTask_load_data_rows U self [] = ([], None)"
| "LanguageModelingTask_load_data_rows U self (row # rows) =
     (let toks = strip row in
      if toks = [] then LanguageModelingTask_load_data_rows U self rows
      else gen_then ([process_sentence U toks (max_seq_len self) (SOS_TOK U) (EOS_TOK U)], None)
                    (LanguageModelingTask_load_data_rows U self rows))"

definition LanguageModelingTask_load_data :: "externals \<Rightarrow> task \<Rightarrow> string \<Rightarrow> string list gen" where
  "LanguageModelingTask_load_data U self path =
     (case open_file U path of
        None \<Rightarrow> ([], Some FileNotFoundError)
      | Some rows \<Rightarrow> LanguageModelingTask_load_data_rows U self rows)"

text \<open>
  \<open>WikiTextLMTask.load_data(path)\<close>: the loop over the rows. \<open>sent.count("=")\<close> counts
  the tokens equal to \<open>"="\<close>; \<open>len(toks)\<close> is the number of characters of the stripped row.
\<close>

primrec WikiTextLMTask_load_data_rows :: "externals \<Rightarrow> task \<Rightarrow> string list \<Rightarrow> string list gen" where
  "WikiTextLMTask_load_data_rows U self [] = ([], None)"
| "WikiTextLMTask_load_data_rows U self (row # rows) =
     (let nonatomics_toks = [UNK_TOK_ALLENNLP, ''<unk>''];
          toks = strip row in
      if toks = [] then WikiTextLMTask_load_data_rows U self rows
      else (case atomic_tokenize U toks UNK_TOK_ATOMIC nonatomics_toks (max_seq_len self) of
              Inl e \<Rightarrow> ([], Some e)
            | Inr sent \<Rightarrow>
                if int (count_list sent ''='') \<ge> 2 \<or> int (length toks) < min_seq_len self + 2
                then WikiTextLMTask_load_data_rows U self rows
                else gen_then ([sent], None) (WikiTextLMTask_load_data_rows U self rows)))"

definition WikiTextLMTask_load_data :: "externals \<Rightarrow> task \<Rightarrow> string \<Rightarrow> string list gen" where
  "WikiTextLMTask_load_data U self path =
     (case open_file U path of
        None \<Rightarrow> ([], Some FileNotFoundError)
      | Some rows \<Rightarrow> WikiTextLMTask_load_data_rows U self rows)"

text \<open>
  \<open>_make_instance(sent)\<close> of \<open>LanguageModelingTask.process_split\<close>. \<open>sent[0]\<close> and
  \<open>sent[-1]\<close> raise on an empty sentence; \<open>sent[1:]\<close> and \<open>sent[:-1]\<close> do not. The
  first argument of a call is evaluated before \<open>self.target_indexer\<close> is read.
\<close>

definition LanguageModelingTask_make_instance :: "task \<Rightarrow> indexers \<Rightarrow> string list \<Rightarrow> error + Instance" where
  "LanguageModelingTask_make_instance self ixs sent =
     (let d = [];
          d = AList.update ''input'' (sentence_to_text_field sent ixs) d in
      if sent = [] then Inl IndexError
      else (case target_indexer self of
              None \<Rightarrow> Inl AttributeError
            | Some ti \<Rightarrow>
                (let d = AList.update ''targs''
                           (sentence_to_text_field (drop 1 sent @ [sent ! 0]) ti) d;
                     d = AList.update ''targs_b''
                           (sentence_to_text_field ([sent ! (length sent - 1)] @ butlast sent) ti) d
                 in Inr d)))"

text \<open>\<open>LanguageModelingTask.process_split(split, indexers)\<close>: a generator over the sentences.\<close>

primrec LanguageModelingTask_process_split :: "task \<Rightarrow> string list list \<Rightarrow> indexers \<Rightarrow> Instance gen" where
  "LanguageModelingTask_process_split self [] ixs = ([], None)"
| "LanguageModelingTask_process_split self (sent # split) ixs =
     (case LanguageModelingTask_make_instance self ixs sent of
        Inl e \<Rightarrow> ([], Some e)
      | Inr d \<Rightarrow> gen_then ([d], None) (LanguageModelingTask_process_split self split ixs))"

text \<open>
  \<open>LanguageModelingTask.get_sentences\<close>. \<open>load_data\<close> is the method the object's class
  resolves \<open>self.load_data\<close> to. The task object is returned with the sentences: the
  method assigns to no attribute.
\<close>

fun LanguageModelingTask_get_sentences_loop ::
  "(string \<Rightarrow> string list gen) \<Rightarrow> (string \<times> string) list \<Rightarrow> string list gen" where
  "LanguageModelingTask_get_sentences_loop load_data [] = ([], None)"
| "LanguageModelingTask_get_sentences_loop load_data ((split, path) # rest) =
     (if startswith split ''test'' then LanguageModelingTask_get_sentences_loop load_data rest
      else gen_then (load_data path) (LanguageModelingTask_get_sentences_loop load_data rest))"

definition LanguageModelingTask_get_sentences ::
  "(task \<Rightarrow> string \<Rightarrow> string list gen) \<Rightarrow> task \<Rightarrow> string list gen \<times> task" where
  "LanguageModelingTask_get_sentences load_data self =
     (LanguageModelingTask_get_sentences_loop (load_data self) (files_by_split self), self)"

section \<open>Reddit, DisSent, machine translation and Wiki103 classification\<close>

text \<open>\<open>RedditTask.load_data\<close> and, with the same text, \<open>RedditPairClassificationTask.load_data\<close>.\<close>

primrec RedditTask_load_data_rows ::
  "externals \<Rightarrow> task \<Rightarrow> string list \<Rightarrow> (string list \<times> string list \<times> int) gen" where
  "RedditTask_load_data_rows U self [] = ([], None)"
| "RedditTask_load_data_rows U self (row # rows) =
     (let row = split_on (CHR 0x09) (strip row) in
      if length row < 4 \<or> row ! 2 = [] \<or> row ! 3 = [] then RedditTask_load_data_rows U self rows
      else (let sent1 = process_sentence U (row ! 2) (max_seq_len self) (SOS_TOK U) (EOS_TOK U);
                sent2 = process_sentence U (row ! 3) (max_seq_len self) (SOS_TOK U) (EOS_TOK U);
                targ = 1
            in gen_then ([(sent1, sent2, targ)], None) (RedditTask_load_data_rows U self rows)))"

definition RedditTask_load_data ::
  "externals \<Rightarrow> task \<Rightarrow> string \<Rightarrow> (string list \<times> string list \<times> int) gen" where
  "RedditTask_load_data U self path =
     (case open_file U path of
        None \<Rightarrow> ([], Some FileNotFoundError)
      | Some rows \<Rightarrow> RedditTask_load_data_rows U self rows)"

definition RedditPairClassificationTask_load_data ::
  "externals \<Rightarrow> task \<Rightarrow> string \<Rightarrow> (string list \<times> string list \<times> int) gen" where
  "RedditPairClassificationTask_load_data U self path =
     (case open_file U path of
        None \<Rightarrow> ([], Some FileNotFoundError)
      | Some rows \<Rightarrow> RedditTask_load_data_rows U self rows)"

primrec MTDataPairClassificationTask_load_data_rows ::
  "externals \<Rightarrow> task \<Rightarrow> string list \<Rightarrow> (string list \<times> string list \<times> int) gen" where
  "MTDataPairClassificationTask_load_data_rows U self [] = ([], None)"
| "MTDataPairClassificationTask_load_data_rows U self (row # rows) =
     (let row = split_on (CHR 0x09) (strip row) in
      if length row < 2 \<or> row ! 0 = [] \<or> row ! 1 = []
      then MTDataPairClassificationTask_load_data_rows U self rows
      else (let sent1 = process_sentence U (row ! 0) (max_seq_len self) (SOS_TOK U) (EOS_TOK U);
                sent2 = process_sentence U (row ! 1) (max_seq_len self) (SOS_TOK U) (EOS_TOK U);
                targ = 1
            in gen_then ([(sent1, sent2, targ)], None)
                 (MTDataPairClassificationTask_load_data_rows U self rows)))"

definition MTDataPairClassificationTask_load_data ::
  "externals \<Rightarrow> task \<Rightarrow> string \<Rightarrow> (string list \<times> string list \<times> int) gen" where
  "MTDataPairClassificationTask_load_data U self path =
     (case open_file U path of
        None \<Rightarrow> ([], Some FileNotFoundError)
      | Some rows \<Rightarrow> MTDataPairClassificationTask_load_data_rows U self rows)"

text \<open>\<open>DisSentTask.load_data\<close>; \<open>int(row[2])\<close> can raise.\<close>

primrec DisSentTask_load_data_rows ::
  "externals \<Rightarrow> task \<Rightarrow> string list \<Rightarrow> (string list \<times> string list \<times> int) gen" where
  "DisSentTask_load_data_rows U self [] = ([], None)"
| "DisSentTask_load_data_rows U self (row # rows) =
     (let row = split_on (CHR 0x09) (strip row) in
      if length row \<noteq> 3 \<or> \<not> (row ! 0 \<noteq> [] \<and> row ! 1 \<noteq> [] \<and> row ! 2 \<noteq> [])
      then DisSentTask_load_data_rows U self rows
      else (let sent1 = process_sentence U (row ! 0) (max_seq_len self) (SOS_TOK U) (EOS_TOK U);
                sent2 = process_sentence U (row ! 1) (max_seq_len self) (SOS_TOK U) (EOS_TOK U) in
            case int_of_str U (row ! 2) of
              None \<Rightarrow> ([], Some ValueError)
            | Some targ \<Rightarrow>
                gen_then ([(sent1, sent2, targ)], None) (DisSentTask_load_data_rows U self rows)))"

definition DisSentTask_load_data ::
  "externals \<Rightarrow> task \<Rightarrow> string \<Rightarrow> (string list \<times> string list \<times> int) gen" where
  "DisSentTask_load_data U self path =
     (case open_file U path of
        None \<Rightarrow> ([], Some FileNotFoundError)
      | Some rows \<Rightarrow> DisSentTask_load_data_rows U self rows)"

text \<open>\<open>MTTask.load_data\<close>: the target sentence gets the sentinels of the decoder.\<close>

primrec MTTask_load_data_rows ::
  "externals \<Rightarrow> task \<Rightarrow> string list \<Rightarrow> (string list \<times> string list) gen" where
  "MTTask_load_data_rows U self [] = ([], None)"
| "MTTask_load_data_rows U self (row # rows) =
     (let row = split_on (CHR 0x09) (strip row) in
      if length row < 2 \<or> row ! 0 = [] \<or> row ! 1 = [] then MTTask_load_data_rows U self rows
      else (let src_sent = process_sentence U (row ! 0) (max_seq_len self) (SOS_TOK U) (EOS_TOK U);
                tgt_sent = process_sentence U (row ! 1) (max_seq_len self)
                             (START_SYMBOL U) (END_SYMBOL U)
            in gen_then ([(src_sent, tgt_sent)], None) (MTTask_load_data_rows U self rows)))"

definition MTTask_load_data ::
  "externals \<Rightarrow> task \<Rightarrow> string \<Rightarrow> (string list \<times> string list) gen" where
  "MTTask_load_data U self path =
     (case open_file U path of
        None \<Rightarrow> ([], Some FileNotFoundError)
      | Some rows \<Rightarrow> MTTask_load_data_rows U self rows)"

primrec RedditSeq2SeqTask_load_data_rows ::
  "externals \<Rightarrow> task \<Rightarrow> string list \<Rightarrow> (string list \<times> string list) gen" where
  "RedditSeq2SeqTask_load_data_rows U self [] = ([], None)"
| "RedditSeq2SeqTask_load_data_rows U self (row # rows) =
     (let row = split_on (CHR 0x09) (strip row) in
      if length row < 4 \<or> row ! 2 = [] \<or> row ! 3 = []
      then RedditSeq2SeqTask_load_data_rows U self rows
      else (let src_sent = process_sentence U (row ! 2) (max_seq_len self) (SOS_TOK U) (EOS_TOK U);
                tgt_sent = process_sentence U (row ! 3) (max_seq_len self)
                             (START_SYMBOL U) (END_SYMBOL U)
            in gen_then ([(src_sent, tgt_sent)], None) (RedditSeq2SeqTask_load_data_rows U self rows)))"

definition RedditSeq2SeqTask_load_data ::
  "externals \<Rightarrow> task \<Rightarrow> string \<Rightarrow> (string list \<times> string list) gen" where
  "RedditSeq2SeqTask_load_data U self path =
     (case open_file U path of
        None \<Rightarrow> ([], Some FileNotFoundError)
      | Some rows \<Rightarrow> RedditSeq2SeqTask_load_data_rows U self rows)"

text \<open>
  \<open>Wiki103Seq2SeqTask.load_data\<close>: every sentence is paired with an empty list.
  \<open>self._nonatomic_toks\<close> is the list the constructor sets and nothing changes.
\<close>

primrec Wiki103Seq2SeqTask_load_data_rows ::
  "externals \<Rightarrow> task \<Rightarrow> string list \<Rightarrow> (string list \<times> string list) gen" where
  "Wiki103Seq2SeqTask_load_data_rows U self [] = ([], None)"
| "Wiki103Seq2SeqTask_load_data_rows U self (row # rows) =
     (let nonatomic_toks = [UNK_TOK_ALLENNLP, ''<unk>''];
          toks = strip row in
      if toks = [] then Wiki103Seq2SeqTask_load_data_rows U self rows
      else (case atomic_tokenize U toks UNK_TOK_ATOMIC nonatomic_toks (max_seq_len self) of
              Inl e \<Rightarrow> ([], Some e)
            | Inr sent \<Rightarrow>
                gen_then ([(sent, [])], None) (Wiki103Seq2SeqTask_load_data_rows U self rows)))"

definition Wiki103Seq2SeqTask_load_data ::
  "externals \<Rightarrow> task \<Rightarrow> string \<Rightarrow> (string list \<times> string list) gen" where
  "Wiki103Seq2SeqTask_load_data U self path =
     (case open_file U path of
        None \<Rightarrow> ([], Some FileNotFoundError)
      | Some rows \<Rightarrow> Wiki103Seq2SeqTask_load_data_rows U self rows)"

text \<open>\<open>Wiki103Classification.load_data\<close> has the text of \<open>WikiTextLMTask.load_data\<close>.\<close>

definition Wiki103Classification_load_data :: "externals \<Rightarrow> task \<Rightarrow> string \<Rightarrow> string list gen" where
  "Wiki103Classification_load_data U self path =
     (case open_file U path of
        None \<Rightarrow> ([], Some FileNotFoundError)
      | Some rows \<Rightarrow> WikiTextLMTask_load_data_rows U self rows)"

text \<open>
  The \<open>get_sentences\<close> of the other streaming classes. In \<open>RedditTask\<close>,
  \<open>RedditPairClassificationTask\<close> and \<open>DisSentTask\<close> the inner loop yields both
  sentences of every triple; \<open>MTTask.get_sentences\<close> yields what \<open>load_data\<close> yields, the
  pairs; \<open>Wiki103Classification.get_sentences\<close> yields every sentence.
\<close>

text \<open>The inner loop \<open>for sent1, sent2, _ in ...: yield sent1; yield sent2\<close>.\<close>

fun yield_both :: "(string list \<times> string list \<times> int) gen \<Rightarrow> string list gen" where
  "yield_both (triples, e) = (concat (map (\<lambda>(sent1, sent2, _). [sent1, sent2]) triples), e)"

fun RedditTask_get_sentences_loop ::
  "(string \<Rightarrow> (string list \<times> string list \<times> int) gen) \<Rightarrow> (string \<times> string) list \<Rightarrow> string list gen" where
  "RedditTask_get_sentences_loop load_data [] = ([], None)"
| "RedditTask_get_sentences_loop load_data ((split, path) # rest) =
     (if startswith split ''test'' then RedditTask_get_sentences_loop load_data rest
      else gen_then (yield_both (load_data path)) (RedditTask_get_sentences_loop load_data rest))"

definition RedditTask_get_sentences ::
  "(task \<Rightarrow> string \<Rightarrow> (string list \<times> string list \<times> int) gen) \<Rightarrow> task \<Rightarrow> string list gen \<times> task" where
  "RedditTask_get_sentences load_data self =
     (RedditTask_get_sentences_loop (load_data self) (files_by_split self), self)"

fun RedditPairClassificationTask_get_sentences_loop ::
  "(string \<Rightarrow> (string list \<times> string list \<times> int) gen) \<Rightarrow> (string \<times> string) list \<Rightarrow> string list gen" where
  "RedditPairClassificationTask_get_sentences_loop load_data [] = ([], None)"
| "RedditPairClassificationTask_get_sentences_loop load_data ((split, path) # rest) =
     (if startswith split ''test''
      then RedditPairClassificationTask_get_sentences_loop load_data rest
      else gen_then (yield_both (load_data path))
             (RedditPairClassificationTask_get_sentences_loop load_data rest))"

definition RedditPairClassificationTask_get_sentences ::
  "(task \<Rightarrow> string \<Rightarrow> (string list \<times> string list \<times> int) gen) \<Rightarrow> task \<Rightarrow> string list gen \<times> task" where
  "RedditPairClassificationTask_get_sentences load_data self =
     (RedditPairClassificationTask_get_sentences_loop (load_data self) (files_by_split self), self)"

fun DisSentTask_get_sentences_loop ::
  "(string \<Rightarrow> (string list \<times> string list \<times> int) gen) \<Rightarrow> (string \<times> string) list \<Rightarrow> string list gen" where
  "DisSentTask_get_sentences_loop load_data [] = ([], None)"
| "DisSentTask_get_sentences_loop load_data ((split, path) # rest) =
     (if startswith split ''test'' then DisSentTask_get_sentences_loop load_data rest
      else gen_then (yield_both (load_data path)) (DisSentTask_get_sentences_loop load_data rest))"

definition DisSentTask_get_sentences ::
  "(task \<Rightarrow> string \<Rightarrow> (string list \<times> string list \<times> int) gen) \<Rightarrow> task \<Rightarrow> string list gen \<times> task" where
  "DisSentTask_get_sentences load_data self =
     (DisSentTask_get_sentences_loop (load_data self) (files_by_split self), self)"

fun MTTask_get_sentences_loop ::
  "(string \<Rightarrow> (string list \<times> string list) gen) \<Rightarrow> (string \<times> string) list
     \<Rightarrow> (string list \<times> string list) gen" where
  "MTTask_get_sentences_loop load_data [] = ([], None)"
| "MTTask_get_sentences_loop load_data ((split, path) # rest) =
     (if startswith split ''test'' then MTTask_get_sentences_loop load_data rest
      else gen_then (load_data path) (MTTask_get_sentences_loop load_data rest))"

definition MTTask_get_sentences ::
  "(task \<Rightarrow> string \<Rightarrow> (string list \<times> string list) gen) \<Rightarrow> task
     \<Rightarrow> (string list \<times> string list) gen \<times> task" where
  "MTTask_get_sentences load_data self =
     (MTTask_get_sentences_loop (load_data self) (files_by_split self), self)"

fun Wiki103Classification_get_sentences_loop ::
  "(string \<Rightarrow> string list gen) \<Rightarrow> (string \<times> string) list \<Rightarrow> string list gen" where
  "Wiki103Classification_get_sentences_loop load_data [] = ([], None)"
| "Wiki103Classification_get_sentences_loop load_data ((split, path) # rest) =
     (if startswith split ''test'' then Wiki103Classification_get_sentences_loop load_data rest
      else gen_then (load_data path) (Wiki103Classification_get_sentences_loop load_data rest))"

definition Wiki103Classification_get_sentences ::
  "(task \<Rightarrow> string \<Rightarrow> string list gen) \<Rightarrow> task \<Rightarrow> string list gen \<times> task" where
  "Wiki103Classification_get_sentences load_data self =
     (Wiki103Classification_get_sentences_loop (load_data self) (files_by_split self), self)"

section \<open>The diagnostic task: instances\<close>

text \<open>
  \<open>create_labels_from_tags(fields_dict, ix_to_tag_dict, tag_arr, tag_group)\<close> of
  \<open>MultiNLIDiagnosticTask.process_split\<close>: first the field of the group, then one
  field for every tag whose index is not 0.
\<close>

fun create_labels_loop ::
  "(int \<times> string) list \<Rightarrow> int list \<Rightarrow> string \<Rightarrow> Instance \<Rightarrow> Instance" where
  "create_labels_loop [] tag_arr tag_group fields_dict = fields_dict"
| "create_labels_loop ((ix, tag) # rest) tag_arr tag_group fields_dict =
     (if ix = 0 then create_labels_loop rest tag_arr tag_group fields_dict
      else (let is_present = (if ix \<in> set tag_arr then 1 else 0)
            in create_labels_loop rest tag_arr tag_group
                 (AList.update (tag_group @ ''__'' @ tag)
                    (LabelField is_present (tag_group @ ''__'' @ tag) True) fields_dict)))"

definition create_labels_from_tags ::
  "Instance \<Rightarrow> (int \<times> string) list \<Rightarrow> int list \<Rightarrow> string \<Rightarrow> Instance" where
  "create_labels_from_tags fields_dict ix_to_tag_dict tag_arr tag_group =
     (let is_tag_group = (if length tag_arr \<noteq> 0 then 1 else 0);
          fields_dict = AList.update tag_group (LabelField is_tag_group tag_group True) fields_dict
      in create_labels_loop ix_to_tag_dict tag_arr tag_group fields_dict)"

text \<open>
  \<open>_make_instance(input1, input2, label, idx, lex_sem, pr_ar_str, logic, knowledge)\<close>;
  \<open>input1[1:-1]\<close> drops the first and the last token.
\<close>

definition MultiNLIDiagnosticTask_make_instance ::
  "task \<Rightarrow> indexers \<Rightarrow>
   string list \<times> string list \<times> int \<times> int \<times> int list \<times> int list \<times> int list \<times> int list
     \<Rightarrow> Instance" where
  "MultiNLIDiagnosticTask_make_instance self ixs row =
     (case row of (input1, input2, lab, idx, lex_sem, pr_ar_str, logic, knowledge) \<Rightarrow>
        (let d = [];
             d = AList.update ''input1'' (sentence_to_text_field input1 ixs) d;
             d = AList.update ''input2'' (sentence_to_text_field input2 ixs) d;
             d = AList.update ''labels'' (LabelField lab ''labels'' True) d;
             d = AList.update ''idx'' (LabelField idx ''idx'' True) d;
             d = AList.update ''sent1_str'' (MetadataField (MetaStr (join '' '' (butlast (drop 1 input1))))) d;
             d = AList.update ''sent2_str'' (MetadataField (MetaStr (join '' '' (butlast (drop 1 input2))))) d;
             d = create_labels_from_tags d (ix_to_lex_sem_dic self) lex_sem ''lex_sem'';
             d = create_labels_from_tags d (ix_to_pr_ar_str_dic self) pr_ar_str ''pr_ar_str'';
             d = create_labels_from_tags d (ix_to_logic_dic self) logic ''logic'';
             d = create_labels_from_tags d (ix_to_knowledge_dic self) knowledge ''knowledge''
         in d))"

text \<open>
  A split of the diagnostic task: the eight columns set by
  \<open>load_data_and_create_scorers\<close>.
\<close>

record diag_split =
  c_sents1 :: "string list list"
  c_sents2 :: "string list list"
  c_targs :: "int list"
  c_idxs :: "int list"
  c_lex_sem :: "int list list"
  c_pr_ar_str :: "int list list"
  c_logic :: "int list list"
  c_knowledge :: "int list list"

text \<open>The rows that \<open>map(_make_instance, *split)\<close> walks: it stops with the shortest column.\<close>

definition diag_rows ::
  "diag_split \<Rightarrow>
   (string list \<times> string list \<times> int \<times> int \<times> int list \<times> int list \<times> int list \<times> int list) list" where
  "diag_rows split =
     zip (c_sents1 split) (zip (c_sents2 split) (zip (c_targs split) (zip (c_idxs split)
       (zip (c_lex_sem split) (zip (c_pr_ar_str split) (zip (c_logic split) (c_knowledge split)))))))"

definition MultiNLIDiagnosticTask_process_split :: "task \<Rightarrow> diag_split \<Rightarrow> indexers \<Rightarrow> Instance list" where
  "MultiNLIDiagnosticTask_process_split self split ixs =
     map (MultiNLIDiagnosticTask_make_instance self ixs) (diag_rows split)"

section \<open>Concrete inputs\<close>

text \<open>
  A small environment on which the definitions can be run: a whitespace tokenizer that
  truncates to \<open>max_seq_len - 2\<close> tokens and adds the two sentinels, one edge-probing
  file of four records (the second has an empty target list, the third has none), a
  label file, and three line-per-sentence files.
\<close>

definition example_records :: "edge_record list" where
  "example_records =
     [ \<lparr> r_text = ''The cat sat'',
         r_targets = Some [\<lparr> span1 = (0, 2), span2 = Some (2, 3), label = LStr ''A'' \<rparr>] \<rparr>,
       \<lparr> r_text = ''Nothing here'', r_targets = Some [] \<rparr>,
       \<lparr> r_text = ''No key'', r_targets = None \<rparr>,
       \<lparr> r_text = ''Dogs bark loudly'',
         r_targets = Some [\<lparr> span1 = (0, 1), span2 = Some (1, 3), label = LList [''A'', ''B''] \<rparr>,
                           \<lparr> span1 = (1, 2), span2 = Some (2, 3), label = LStr ''B'' \<rparr>] \<rparr> ]"

definition example_externals :: externals where
  "example_externals =
     \<lparr> SOS_TOK = ''<SOS>'',
       EOS_TOK = ''<EOS>'',
       START_SYMBOL = ''@start@'',
       END_SYMBOL = ''@end@'',
       process_sentence = (\<lambda>sent n sos eos. [sos] @ take (nat (n - 2)) (split_ws sent) @ [eos]),
       TOKENIZER_class_name = ''MosesTokenizer'',
       load_json_data = (\<lambda>f. if f = ''data/train.json.retokenized.MosesTokenizer''
                              then Some example_records
                              else if f = ''data/test.json.retokenized.MosesTokenizer''
                              then Some [\<lparr> r_text = ''held out'',
                                           r_targets = Some [\<lparr> span1 = (0, 1), span2 = None,
                                                               label = LStr ''A'' \<rparr>] \<rparr>]
                              else None),
       load_lines = (\<lambda>f. if f = ''data/labels.txt'' then Some [''A'', ''B''] else None),
       open_file = (\<lambda>f. if f = ''wiki/train.txt''
                         then Some ['' = Title = '', ''a==b c'', [], ''x'', ''the <unk> ran'']
                         else if f = ''wiki/valid.txt'' then Some [''one two'']
                         else if f = ''wiki/test.txt'' then Some [''secret words'']
                         else None),
       int_of_str = (\<lambda>s. if s = ''0'' then Some 0 else if s = ''1'' then Some 1 else None) \<rparr>"

text \<open>Readings of the aggregators, constructor arguments, and two constructed tasks.\<close>

definition example_rd :: rd where
  "example_rd a reset = (if a = Scorer1 then 1 / 2 else 3 / 4)"

definition example_rd3 :: rd3 where
  "example_rd3 a reset = (1 / 2, 1 / 4, 1 / 3)"


definition example_wiki_task :: task where
  "example_wiki_task = WikiTextLMTask_init ''wiki'' 10 ''wiki''"

definition example_diag_split :: diag_split where
  "example_diag_split =
     \<lparr> c_sents1 = [[''<SOS>'', ''a'', ''<EOS>''], [''<SOS>'', ''b'', ''<EOS>'']],
       c_sents2 = [[''<SOS>'', ''c'', ''<EOS>''], [''<SOS>'', ''d'', ''<EOS>'']],
       c_targs = [0, 2], c_idxs = [0, 1],
       c_lex_sem = [[], [1]], c_pr_ar_str = [[1], []],
       c_logic = [[1, 2], []], c_knowledge = [[], []] \<rparr>"

definition example_edge_task :: task where
  "example_edge_task =
     (case EdgeProbingTask_init example_externals ''data'' 40 ''edges-demo'' (Some ''labels.txt'')
             (Some [(''train'', ''train.json''), (''test'', ''test.json'')]) False False of
        Inr self \<Rightarrow> self
      | Inl e \<Rightarrow> Task_init [])"

section \<open>Properties\<close>

subsection \<open>Edge probing: loading\<close>

lemma stream_records_loop_eq:
  "stream_records_loop recs s t =
     (filter (\<lambda>r. \<not> no_targets r) recs, s + length (filter no_targets recs), t + length recs)"
  by (induction recs arbitrary: s t) (simp_all add: Let_def)

lemma stream_records_eq:
  "stream_records U filename =
     (case load_json_data U filename of
        None \<Rightarrow> Inl FileNotFoundError
      | Some recs \<Rightarrow> Inr (filter (\<lambda>r. \<not> no_targets r) recs,
                         length recs - length (filter no_targets recs),
                         length (filter no_targets recs), length recs))"
  by (simp add: stream_records_def stream_records_loop_eq split: option.splits)

lemma load_data_loop_other:
  "EdgeProbingTask_load_data_loop U fl acc = Inr iters \<Longrightarrow> split \<notin> fst ` set fl \<Longrightarrow>
   map_of iters split = map_of acc split"
proof (induction fl arbitrary: acc)
  case Nil
  then show ?case by simp
next
  case (Cons a fl)
  obtain s f where a: "a = (s, f)" by (cases a)
  from Cons.prems show ?case
    by (auto simp: a update_conv' split: sum.splits prod.splits dest!: Cons.IH)
qed

lemma load_data_loop_split:
  "EdgeProbingTask_load_data_loop U fl acc = Inr iters \<Longrightarrow> distinct (map fst fl) \<Longrightarrow>
   (split, filename) \<in> set fl \<Longrightarrow>
   \<exists>recs. load_json_data U filename = Some recs \<and>
          map_of iters split = Some (filter (\<lambda>r. \<not> no_targets r) recs)"
proof (induction fl arbitrary: acc)
  case Nil
  then show ?case by simp
next
  case (Cons a fl)
  obtain s f where a: "a = (s, f)" by (cases a)
  show ?case
  proof (cases "(split, filename) = a")
    case True
    with Cons.prems a have notin: "split \<notin> fst ` set fl" by auto
    from Cons.prems(1) True a obtain it x where
      sr: "stream_records U filename = Inr (it, x)" and
      rest: "EdgeProbingTask_load_data_loop U fl (AList.update split it acc) = Inr iters"
      by (auto split: sum.splits prod.splits)
    from load_data_loop_other[OF rest notin]
    have "map_of iters split = Some it" by (simp add: update_conv')
    moreover from sr obtain recs where "load_json_data U filename = Some recs"
      and "it = filter (\<lambda>r. \<not> no_targets r) recs"
      by (auto simp: stream_records_eq split: option.splits)
    ultimately show ?thesis by blast
  next
    case False
    with Cons.prems a have mem: "(split, filename) \<in> set fl" and d: "distinct (map fst fl)" by auto
    from Cons.prems(1) a obtain it x where
      rest: "EdgeProbingTask_load_data_loop U fl (AList.update s it acc) = Inr iters"
      by (auto split: sum.splits prod.splits)
    from Cons.IH[OF rest d mem] show ?thesis .
  qed
qed

lemma EdgeProbingTask_init_iters:
  assumes "EdgeProbingTask_init U path max_len nm label_file (Some fbs) symm single = Inr self"
  shows "EdgeProbingTask_load_data_loop U
           (map (\<lambda>(split, fname). (split, os_path_join path fname @ tokenizer_suffix U)) fbs) []
         = Inr (iters_by_split self)"
  using assms
  by (auto simp: EdgeProbingTask_init_def EdgeProbingTask_load_data_def Let_def
           split: option.splits sum.splits)

text \<open>
  C1. For an edge-probing task that was constructed from a dictionary \<open>files_by_split\<close>,
  and for every split of that dictionary: the file read is the configured file name with
  the tokenizer suffix; the split that \<open>get_split_text\<close> returns holds exactly the
  records of that file whose \<open>targets\<close> list is neither missing nor empty, in their
  order; and \<open>get_num_examples\<close> of it is the number of records kept, that is the raw
  record count minus the number of records dropped.
\<close>

theorem edge_loading_drops_empty_targets:
  assumes init: "EdgeProbingTask_init U path max_len nm label_file (Some fbs) symm single = Inr self"
      and dist: "distinct (map fst fbs)"
      and mem: "(split, fname) \<in> set fbs"
  shows "\<exists>recs kept.
           load_json_data U (os_path_join path fname @ tokenizer_suffix U) = Some recs
         \<and> kept = filter (\<lambda>r. r_targets r \<noteq> None \<and> r_targets r \<noteq> Some []) recs
         \<and> EdgeProbingTask_get_split_text self split = Inr kept
         \<and> EdgeProbingTask_get_num_examples self kept = length kept
         \<and> EdgeProbingTask_get_num_examples self kept
             = length recs - length (filter (\<lambda>r. r_targets r = None \<or> r_targets r = Some []) recs)"
proof -
  let ?fl = "map (\<lambda>(split, fname). (split, os_path_join path fname @ tokenizer_suffix U)) fbs"
  have m: "map fst ?fl = map fst fbs" by (induction fbs) auto
  have d: "distinct (map fst ?fl)" using dist by (simp only: m)
  have mem': "(split, os_path_join path fname @ tokenizer_suffix U) \<in> set ?fl"
    using mem by force
  from load_data_loop_split[OF EdgeProbingTask_init_iters[OF init] d mem']
  obtain recs where lj: "load_json_data U (os_path_join path fname @ tokenizer_suffix U) = Some recs"
    and mo: "map_of (iters_by_split self) split = Some (filter (\<lambda>r. \<not> no_targets r) recs)"
    by blast
  have nt: "no_targets = (\<lambda>r. r_targets r = None \<or> r_targets r = Some [])"
    by (auto simp: no_targets_def fun_eq_iff split: option.splits)
  have len: "length (filter (\<lambda>r. \<not> no_targets r) recs) = length recs - length (filter no_targets recs)"
    using sum_length_filter_compl[of no_targets recs] by simp
  show ?thesis
    using lj mo len
    by (simp add: EdgeProbingTask_get_split_text_def EdgeProbingTask_get_num_examples_def nt)
qed

theorem edge_loading_drops_empty_targets_witness:
  "\<exists>self.
     EdgeProbingTask_init example_externals ''data'' 40 ''edges-demo'' (Some ''labels.txt'')
       (Some [(''train'', ''train.json''), (''test'', ''test.json'')]) False False = Inr self
   \<and> distinct (map fst [(''train'', ''train.json''), (''test'', ''test.json'')])
   \<and> (''train'', ''train.json'') \<in> set [(''train'', ''train.json''), (''test'', ''test.json'')]
   \<and> load_json_data example_externals (os_path_join ''data'' ''train.json'' @ tokenizer_suffix example_externals)
       = Some example_records
   \<and> EdgeProbingTask_get_split_text self ''train'' = Inr [example_records ! 0, example_records ! 3]
   \<and> EdgeProbingTask_get_num_examples self [example_records ! 0, example_records ! 3] = 2"
proof -
  have lj: "load_json_data example_externals (os_path_join ''data'' ''train.json'' @ tokenizer_suffix example_externals)
       = Some example_records"
    by (simp add: example_externals_def os_path_join_def startswith_def tokenizer_suffix_def tokenizer_name_def)
  have "\<exists>self. EdgeProbingTask_init example_externals ''data'' 40 ''edges-demo'' (Some ''labels.txt'')
       (Some [(''train'', ''train.json''), (''test'', ''test.json'')]) False False = Inr self"
    by (simp add: EdgeProbingTask_init_def EdgeProbingTask_load_data_def stream_records_def
        example_externals_def os_path_join_def startswith_def tokenizer_suffix_def tokenizer_name_def
        Let_def Task_init_def split: prod.splits)
  then obtain self where i: "EdgeProbingTask_init example_externals ''data'' 40 ''edges-demo'' (Some ''labels.txt'')
       (Some [(''train'', ''train.json''), (''test'', ''test.json'')]) False False = Inr self" ..
  have d: "distinct (map fst [(''train'', ''train.json''), (''test'', ''test.json'')])" by simp
  have m: "(''train'', ''train.json'') \<in> set [(''train'', ''train.json''), (''test'', ''test.json'')]" by simp
  have k: "filter (\<lambda>r. r_targets r \<noteq> None \<and> r_targets r \<noteq> Some []) example_records
           = [example_records ! 0, example_records ! 3]"
    by (simp add: example_records_def)
  from edge_loading_drops_empty_targets[OF i d m] lj k
  have "EdgeProbingTask_get_split_text self ''train'' = Inr [example_records ! 0, example_records ! 3]
      \<and> EdgeProbingTask_get_num_examples self [example_records ! 0, example_records ! 3] = 2"
    by auto
  with i d m lj show ?thesis by blast
qed

subsection \<open>Edge probing: spans\<close>

lemma span2_fields_nth:
  "span2_fields ts tf = Inr fs \<Longrightarrow>
   length fs = length ts \<and>
   (\<forall>k<length ts. \<exists>i j. span2 (ts ! k) = Some (i, j) \<and> fs ! k = SpanField (i + 1) j tf)"
proof (induction ts arbitrary: fs)
  case Nil
  then show ?case by simp
next
  case (Cons t ts)
  from Cons.prems obtain s fs' where s: "span2 t = Some s"
    and r: "span2_fields ts tf = Inr fs'" and fs: "fs = make_span_field s tf 1 # fs'"
    by (auto split: option.splits sum.splits)
  from Cons.IH[OF r] have len: "length fs' = length ts"
    and ih: "\<forall>k<length ts. \<exists>i j. span2 (ts ! k) = Some (i, j) \<and> fs' ! k = SpanField (i + 1) j tf"
    by blast+
  show ?case
  proof (intro conjI allI impI)
    show "length fs = length (t # ts)" using len fs by simp
  next
    fix k assume k: "k < length (t # ts)"
    show "\<exists>i j. span2 ((t # ts) ! k) = Some (i, j) \<and> fs ! k = SpanField (i + 1) j tf"
    proof (cases k)
      case 0
      then show ?thesis using s fs by (cases s) (simp add: make_span_field_def)
    next
      case (Suc m)
      with k ih fs show ?thesis by simp
    qed
  qed
qed

text \<open>
  C6. Whenever \<open>make_instance\<close> returns an Instance for a record, the field \<open>span1s\<close>
  holds one span per target, and a target whose \<open>span1\<close> is the half-open interval
  \<open>[i, j)\<close> is stored as the span with start \<open>i + 1\<close> and inclusive end \<open>j\<close> over the
  text field that starts with the start-of-sequence token. For a task that is not
  single-sided the same holds for \<open>span2\<close> in the field \<open>span2s\<close>; a single-sided task
  has no field \<open>span2s\<close>.
\<close>

theorem edge_span_offset:
  assumes mk: "make_instance U self record idx ixs = Inr d"
  shows "\<exists>targets s1.
           r_targets record = Some targets
         \<and> map_of d ''input1'' = Some (TextField ([SOS_TOK U] @ split_ws (r_text record) @ [EOS_TOK U]) ixs)
         \<and> map_of d ''span1s'' = Some (ListField s1)
         \<and> length s1 = length targets
         \<and> (\<forall>k<length targets. \<forall>i j. span1 (targets ! k) = (i, j) \<longrightarrow>
               s1 ! k = SpanField (i + 1) j
                          (TextField ([SOS_TOK U] @ split_ws (r_text record) @ [EOS_TOK U]) ixs))
         \<and> (single_sided self \<longrightarrow> map_of d ''span2s'' = None)
         \<and> (\<not> single_sided self \<longrightarrow>
               (\<exists>s2. map_of d ''span2s'' = Some (ListField s2) \<and> length s2 = length targets \<and>
                  (\<forall>k<length targets. \<exists>i j. span2 (targets ! k) = Some (i, j) \<and>
                     s2 ! k = SpanField (i + 1) j
                          (TextField ([SOS_TOK U] @ split_ws (r_text record) @ [EOS_TOK U]) ixs))))"
proof -
  let ?tf = "TextField ([SOS_TOK U] @ split_ws (r_text record) @ [EOS_TOK U]) ixs"
  from mk obtain targets where tg: "r_targets record = Some targets"
    by (auto simp: make_instance_def Let_def split: option.splits)
  let ?s1 = "map (\<lambda>t. make_span_field (span1 t) ?tf 1) targets"
  have s1: "\<forall>k<length targets. \<forall>i j. span1 (targets ! k) = (i, j) \<longrightarrow> ?s1 ! k = SpanField (i + 1) j ?tf"
    by (simp add: make_span_field_def)
  show ?thesis
  proof (cases "single_sided self")
    case True
    with mk tg have "map_of d ''span1s'' = Some (ListField ?s1)"
      and "map_of d ''span2s'' = None" and "map_of d ''input1'' = Some ?tf"
      by (auto simp: make_instance_def Let_def update_conv' sentence_to_text_field_def)
    with tg s1 True show ?thesis by (intro exI[of _ targets] exI[of _ ?s1]) simp
  next
    case False
    with mk tg obtain s2 where sp: "span2_fields targets ?tf = Inr s2"
      by (auto simp: make_instance_def Let_def sentence_to_text_field_def split: sum.splits)
    with mk tg False have "map_of d ''span1s'' = Some (ListField ?s1)"
      and "map_of d ''span2s'' = Some (ListField s2)" and "map_of d ''input1'' = Some ?tf"
      by (auto simp: make_instance_def Let_def update_conv' sentence_to_text_field_def)
    with tg s1 False span2_fields_nth[OF sp] show ?thesis
      by (intro exI[of _ targets] exI[of _ ?s1]) simp
  qed
qed

theorem edge_span_offset_witness:
  "\<exists>d s1 s2 tf. make_instance example_externals
       ((Task_init ''edges-demo'')\<lparr>label_namespace := Some ''edges-demo_labels''\<rparr>)
       (example_records ! 3) 0 [] = Inr d
     \<and> tf = TextField [''<SOS>'', ''Dogs'', ''bark'', ''loudly'', ''<EOS>''] []
     \<and> map_of d ''span1s'' = Some (ListField s1)
     \<and> s1 = [SpanField 1 1 tf, SpanField 2 2 tf]
     \<and> map_of d ''span2s'' = Some (ListField s2)
     \<and> s2 = [SpanField 2 3 tf, SpanField 3 3 tf]"
proof -
  let ?self = "(Task_init ''edges-demo'')\<lparr>label_namespace := Some ''edges-demo_labels''\<rparr>"
  have sw: "split_ws ''Dogs bark loudly'' = [''Dogs'', ''bark'', ''loudly'']"
    by (simp add: split_ws_def isspace_def)
  have "\<exists>d. make_instance example_externals ?self (example_records ! 3) 0 [] = Inr d"
    by (simp add: make_instance_def example_records_def Let_def Task_init_def)
  then obtain d where mk: "make_instance example_externals ?self (example_records ! 3) 0 [] = Inr d" ..
  have ns: "\<not> single_sided ?self" by (simp add: Task_init_def)
  from edge_span_offset[OF mk] ns obtain targets s1 s2 where
    tg: "r_targets (example_records ! 3) = Some targets"
    and f1: "map_of d ''span1s'' = Some (ListField s1)" and l1: "length s1 = length targets"
    and n1: "\<forall>k<length targets. \<forall>i j. span1 (targets ! k) = (i, j) \<longrightarrow>
               s1 ! k = SpanField (i + 1) j
                 (TextField ([SOS_TOK example_externals] @ split_ws (r_text (example_records ! 3)) @ [EOS_TOK example_externals]) [])"
    and f2: "map_of d ''span2s'' = Some (ListField s2)" and l2: "length s2 = length targets"
    and n2: "\<forall>k<length targets. \<exists>i j. span2 (targets ! k) = Some (i, j) \<and>
               s2 ! k = SpanField (i + 1) j
                 (TextField ([SOS_TOK example_externals] @ split_ws (r_text (example_records ! 3)) @ [EOS_TOK example_externals]) [])"
    by blast
  have tf: "TextField ([SOS_TOK example_externals] @ split_ws (r_text (example_records ! 3)) @ [EOS_TOK example_externals]) []
      = TextField [''<SOS>'', ''Dogs'', ''bark'', ''loudly'', ''<EOS>''] []"
    by (simp add: example_records_def example_externals_def sw)
  from tg have targets: "targets = [\<lparr> span1 = (0, 1), span2 = Some (1, 3), label = LList [''A'', ''B''] \<rparr>,
                           \<lparr> span1 = (1, 2), span2 = Some (2, 3), label = LStr ''B'' \<rparr>]"
    by (simp add: example_records_def)
  have len: "length targets = 2" by (simp add: targets)
  from n1 have a0: "s1 ! 0 = SpanField 1 1 (TextField [''<SOS>'', ''Dogs'', ''bark'', ''loudly'', ''<EOS>''] [])"
    unfolding tf by (simp add: targets)
  from n1[rule_format, of 1 1 2] have a1: "s1 ! 1 = SpanField 2 2 (TextField [''<SOS>'', ''Dogs'', ''bark'', ''loudly'', ''<EOS>''] [])"
    unfolding tf by (simp add: targets)
  from n2[rule_format, of 0] have b0: "s2 ! 0 = SpanField 2 3 (TextField [''<SOS>'', ''Dogs'', ''bark'', ''loudly'', ''<EOS>''] [])"
    unfolding tf by (simp add: targets)
  from n2[rule_format, of 1] have b1: "s2 ! 1 = SpanField 3 3 (TextField [''<SOS>'', ''Dogs'', ''bark'', ''loudly'', ''<EOS>''] [])"
    unfolding tf by (simp add: targets)
  have e1: "s1 = [s1 ! 0, s1 ! 1]" using l1 len by (cases s1; cases "tl s1"; cases "tl (tl s1)") auto
  have e2: "s2 = [s2 ! 0, s2 ! 1]" using l2 len by (cases s2; cases "tl s2"; cases "tl (tl s2)") auto
  from e1 a0 a1 have s1: "s1 = [SpanField 1 1 (TextField [''<SOS>'', ''Dogs'', ''bark'', ''loudly'', ''<EOS>''] []),
      SpanField 2 2 (TextField [''<SOS>'', ''Dogs'', ''bark'', ''loudly'', ''<EOS>''] [])]" by simp
  from e2 b0 b1 have s2: "s2 = [SpanField 2 3 (TextField [''<SOS>'', ''Dogs'', ''bark'', ''loudly'', ''<EOS>''] []),
      SpanField 3 3 (TextField [''<SOS>'', ''Dogs'', ''bark'', ''loudly'', ''<EOS>''] [])]" by simp
  from mk f1 f2 s1 s2 show ?thesis by blast
qed

subsection \<open>The registry\<close>

text \<open>
  C5. Two successive applications of \<open>register_task\<close> with the same name, to any
  classes, paths and options: the registry afterwards is the registry before with the
  name mapped to the entry of the second application, as if the first had not happened,
  and the entry of every other name is unchanged.
\<close>

theorem register_task_last_wins:
  "snd (register_task nm p2 kw2 c2 (snd (register_task nm p1 kw1 c1 R)))
     = R(nm \<mapsto> (if kw2 \<noteq> [] then Entry3 c2 p2 kw2 else Entry2 c2 p2))
   \<and> snd (register_task nm p2 kw2 c2 (snd (register_task nm p1 kw1 c1 R)))
     = snd (register_task nm p2 kw2 c2 R)
   \<and> snd (register_task nm p2 kw2 c2 (snd (register_task nm p1 kw1 c1 R))) nm
     = snd (register_task nm p2 kw2 c2 Map.empty) nm
   \<and> (\<forall>other. other \<noteq> nm \<longrightarrow>
        snd (register_task nm p2 kw2 c2 (snd (register_task nm p1 kw1 c1 R))) other = R other)"
  by (simp add: register_task_def)

theorem register_task_last_wins_witness:
  "snd (register_task ''wiki103'' ''WikiText103/'' ([] :: (string \<times> kwval) list) WikiText103LMTask
        (snd (register_task ''wiki103'' ''wmt_debug/'' [(''max_targ_v_size'', KInt 5000)] MTDebug
           (Map.empty(''bwb'' \<mapsto> Entry2 MTDebug ''BWB/'')))))
   = [''bwb'' \<mapsto> Entry2 MTDebug ''BWB/'', ''wiki103'' \<mapsto> Entry2 WikiText103LMTask ''WikiText103/'']
   \<and> ''bwb'' \<noteq> ''wiki103''
   \<and> snd (register_task ''wiki103'' ''WikiText103/'' ([] :: (string \<times> kwval) list) WikiText103LMTask
        (snd (register_task ''wiki103'' ''wmt_debug/'' [(''max_targ_v_size'', KInt 5000)] MTDebug
           (Map.empty(''bwb'' \<mapsto> Entry2 MTDebug ''BWB/''))))) ''bwb'' = Some (Entry2 MTDebug ''BWB/'')"
  using register_task_last_wins[of "''wiki103''" "''WikiText103/''" "[] :: (string \<times> kwval) list"
      WikiText103LMTask "''wmt_debug/''" "[(''max_targ_v_size'', KInt 5000)]" MTDebug
      "Map.empty(''bwb'' \<mapsto> Entry2 MTDebug ''BWB/'')"]
  by simp

text \<open>
  C10. The entry that \<open>register_task\<close> stores under the name is the pair
  \<open>(cls, rel_path)\<close> when no keyword option is given and the triple
  \<open>(cls, rel_path, kw)\<close> when at least one is given, so both arities occur; the
  decorator returns the class unchanged.
\<close>

theorem register_task_entry_shape:
  "(kw = [] \<longrightarrow> snd (register_task nm p kw c R) nm = Some (Entry2 c p))
   \<and> (kw \<noteq> [] \<longrightarrow> snd (register_task nm p kw c R) nm = Some (Entry3 c p kw))
   \<and> (\<exists>e. snd (register_task nm p kw c R) nm = Some e \<and> entry_arity e = (if kw = [] then 2 else 3))
   \<and> fst (register_task nm p kw c R) = c"
  by (simp add: register_task_def)

theorem register_task_entry_shape_witness:
  "snd (register_task ''wiki103'' ''WikiText103/'' ([] :: (string \<times> kwval) list) WikiText103LMTask Map.empty) ''wiki103''
     = Some (Entry2 WikiText103LMTask ''WikiText103/'')
   \<and> [(''max_targ_v_size'', KInt 5000)] \<noteq> []
   \<and> snd (register_task ''wmt_debug'' ''wmt_debug/'' [(''max_targ_v_size'', KInt 5000)] MTDebug Map.empty) ''wmt_debug''
     = Some (Entry3 MTDebug ''wmt_debug/'' [(''max_targ_v_size'', KInt 5000)])"
  using register_task_entry_shape[of "[] :: (string \<times> kwval) list" "''wiki103''" "''WikiText103/''" WikiText103LMTask Map.empty]
        register_task_entry_shape[of "[(''max_targ_v_size'', KInt 5000)]" "''wmt_debug''" "''wmt_debug/''" MTDebug Map.empty]
  by simp

subsection \<open>Language modeling: targets\<close>

lemma forward_targets_nth:
  assumes "sent \<noteq> []" and "i < length sent"
  shows "(drop 1 sent @ [sent ! 0]) ! i = sent ! ((i + 1) mod length sent)"
proof (cases "i + 1 < length sent")
  case True
  then have "i < length sent - 1" by simp
  with True show ?thesis by (simp add: nth_append)
next
  case False
  with assms have eq: "i + 1 = length sent" by simp
  then have l: "length (drop 1 sent) = i" by simp
  have "(drop 1 sent @ [sent ! 0]) ! length (drop 1 sent) = sent ! 0"
    by (rule nth_append_length)
  then have "(drop 1 sent @ [sent ! 0]) ! i = sent ! 0" by (simp only: l)
  moreover have "(i + 1) mod length sent = 0" by (simp only: eq mod_self)
  ultimately show ?thesis by simp
qed

lemma backward_targets_nth:
  assumes "sent \<noteq> []" and "i < length sent"
  shows "([sent ! (length sent - 1)] @ butlast sent) ! i
           = sent ! nat ((int i - 1) mod int (length sent))"
proof (cases i)
  case 0
  have "(- 1) mod int (length sent) = int (length sent) - 1"
    using assms(1) by (simp add: zmod_minus1)
  with 0 show ?thesis using assms(1) by (simp add: nat_diff_distrib')
next
  case (Suc m)
  with assms have "m < length sent - 1" by simp
  moreover have "(int (Suc m) - 1) mod int (length sent) = int m"
    using Suc assms(2) by simp
  ultimately show ?thesis using Suc by (simp add: nth_butlast)
qed

lemma LanguageModelingTask_make_instance_Inr:
  assumes "LanguageModelingTask_make_instance self ixs sent = Inr d"
  shows "sent \<noteq> [] \<and> (\<exists>ti. target_indexer self = Some ti
           \<and> map_of d ''input'' = Some (TextField sent ixs)
           \<and> map_of d ''targs'' = Some (TextField (drop 1 sent @ [sent ! 0]) ti)
           \<and> map_of d ''targs_b'' = Some (TextField ([sent ! (length sent - 1)] @ butlast sent) ti))"
  using assms
  by (auto simp: LanguageModelingTask_make_instance_def Let_def update_conv'
                 sentence_to_text_field_def split: option.splits if_splits)

lemma LanguageModelingTask_make_instance_total:
  assumes "target_indexer self \<noteq> None" and "sent \<noteq> []"
  shows "\<exists>d. LanguageModelingTask_make_instance self ixs sent = Inr d"
  using assms by (auto simp: LanguageModelingTask_make_instance_def Let_def)

lemma LanguageModelingTask_process_split_nth:
  "LanguageModelingTask_process_split self split ixs = (insts, e) \<Longrightarrow> k < length insts \<Longrightarrow>
   k < length split \<and> LanguageModelingTask_make_instance self ixs (split ! k) = Inr (insts ! k)"
proof (induction split arbitrary: insts e k)
  case Nil
  then show ?case by simp
next
  case (Cons sent split)
  from Cons.prems obtain d where d: "LanguageModelingTask_make_instance self ixs sent = Inr d"
    by (auto split: sum.splits)
  obtain ys e' where r: "LanguageModelingTask_process_split self split ixs = (ys, e')"
    by (cases "LanguageModelingTask_process_split self split ixs")
  with Cons.prems d have insts: "insts = d # ys" by simp
  show ?case
  proof (cases k)
    case 0
    with insts d show ?thesis by simp
  next
    case (Suc m)
    with Cons.prems(2) insts have "m < length ys" by simp
    from Cons.IH[OF r this] Suc insts show ?thesis by simp
  qed
qed

lemma LanguageModelingTask_process_split_total:
  "target_indexer self \<noteq> None \<Longrightarrow> \<forall>s\<in>set split. s \<noteq> [] \<Longrightarrow>
   \<exists>insts. LanguageModelingTask_process_split self split ixs = (insts, None)
          \<and> length insts = length split"
proof (induction split)
  case Nil
  then show ?case by simp
next
  case (Cons sent split)
  then obtain insts where r: "LanguageModelingTask_process_split self split ixs = (insts, None)"
    and l: "length insts = length split" by auto
  from Cons.prems obtain d where "LanguageModelingTask_make_instance self ixs sent = Inr d"
    using LanguageModelingTask_make_instance_total[of self sent ixs] by auto
  with r l show ?case by simp
qed

text \<open>
  C2. \<open>LanguageModelingTask.process_split\<close> (inherited by every language-modeling
  class): the \<open>k\<close>-th Instance it yields is built from the \<open>k\<close>-th sentence of the
  split, that sentence is not empty, and with \<open>n\<close> its length the forward targets
  \<open>targs\<close> and the backward targets \<open>targs_b\<close> have length \<open>n\<close>, the forward target at
  position \<open>i\<close> is the input token at position \<open>(i + 1) mod n\<close> and the backward target
  at position \<open>i\<close> is the input token at position \<open>(i - 1) mod n\<close>. When the task has
  its target indexer and no sentence of the split is empty, the generator returns after
  one Instance per sentence.
\<close>

theorem lm_targets_are_rotations:
  assumes run: "LanguageModelingTask_process_split self split ixs = (insts, e)"
  shows "(\<forall>k<length insts.
            k < length split \<and> split ! k \<noteq> [] \<and>
            (\<exists>ti fw bw.
               target_indexer self = Some ti
             \<and> map_of (insts ! k) ''input'' = Some (TextField (split ! k) ixs)
             \<and> map_of (insts ! k) ''targs'' = Some (TextField fw ti)
             \<and> map_of (insts ! k) ''targs_b'' = Some (TextField bw ti)
             \<and> length fw = length (split ! k) \<and> length bw = length (split ! k)
             \<and> (\<forall>i<length (split ! k).
                   fw ! i = (split ! k) ! ((i + 1) mod length (split ! k))
                 \<and> bw ! i = (split ! k) ! nat ((int i - 1) mod int (length (split ! k))))))
       \<and> (target_indexer self \<noteq> None \<and> (\<forall>s\<in>set split. s \<noteq> []) \<longrightarrow>
            length insts = length split \<and> e = None)"
proof (intro conjI allI impI)
  fix k assume k: "k < length insts"
  from LanguageModelingTask_process_split_nth[OF run k]
  have kl: "k < length split"
    and mk: "LanguageModelingTask_make_instance self ixs (split ! k) = Inr (insts ! k)" by simp_all
  from LanguageModelingTask_make_instance_Inr[OF mk] obtain ti where
    ne: "split ! k \<noteq> []" and ti: "target_indexer self = Some ti"
    and f0: "map_of (insts ! k) ''input'' = Some (TextField (split ! k) ixs)"
    and f1: "map_of (insts ! k) ''targs'' = Some (TextField (drop 1 (split ! k) @ [split ! k ! 0]) ti)"
    and f2: "map_of (insts ! k) ''targs_b''
               = Some (TextField ([split ! k ! (length (split ! k) - 1)] @ butlast (split ! k)) ti)"
    by blast
  show "k < length split" by (rule kl)
  show "split ! k \<noteq> []" by (rule ne)
  let ?s = "split ! k"
  let ?fw = "drop 1 ?s @ [?s ! 0]" and ?bw = "[?s ! (length ?s - 1)] @ butlast ?s"
  have lf: "length ?fw = length ?s" using ne by (cases ?s) simp_all
  have lb: "length ?bw = length ?s" using ne by (cases ?s) simp_all
  have nth: "\<forall>i<length ?s. ?fw ! i = ?s ! ((i + 1) mod length ?s)
                \<and> ?bw ! i = ?s ! nat ((int i - 1) mod int (length ?s))"
    using forward_targets_nth[OF ne] backward_targets_nth[OF ne] by blast
  from ti f0 f1 f2 lf lb nth
  show "\<exists>ti fw bw.
               target_indexer self = Some ti
             \<and> map_of (insts ! k) ''input'' = Some (TextField (split ! k) ixs)
             \<and> map_of (insts ! k) ''targs'' = Some (TextField fw ti)
             \<and> map_of (insts ! k) ''targs_b'' = Some (TextField bw ti)
             \<and> length fw = length (split ! k) \<and> length bw = length (split ! k)
             \<and> (\<forall>i<length (split ! k).
                   fw ! i = (split ! k) ! ((i + 1) mod length (split ! k))
                 \<and> bw ! i = (split ! k) ! nat ((int i - 1) mod int (length (split ! k))))"
    by blast
next
  assume a: "target_indexer self \<noteq> None \<and> (\<forall>s\<in>set split. s \<noteq> [])"
  with LanguageModelingTask_process_split_total[of self split ixs] run
  show "length insts = length split" by auto
next
  assume a: "target_indexer self \<noteq> None \<and> (\<forall>s\<in>set split. s \<noteq> [])"
  with LanguageModelingTask_process_split_total[of self split ixs] run
  show "e = None" by auto
qed

theorem lm_targets_are_rotations_witness:
  "\<exists>insts fw bw.
     LanguageModelingTask_process_split example_wiki_task [[''<SOS>'', ''a'', ''b'', ''<EOS>'']] []
       = (insts, None)
   \<and> length insts = 1
   \<and> map_of (insts ! 0) ''targs'' = Some (TextField fw [(''words'', SingleIdTokenIndexer ''tokens'')])
   \<and> map_of (insts ! 0) ''targs_b'' = Some (TextField bw [(''words'', SingleIdTokenIndexer ''tokens'')])
   \<and> fw ! 0 = ''a'' \<and> fw ! 3 = ''<SOS>'' \<and> bw ! 0 = ''<EOS>'' \<and> bw ! 1 = ''<SOS>''"
proof -
  let ?split = "[[''<SOS>'', ''a'', ''b'', ''<EOS>'']]"
  obtain insts e where run: "LanguageModelingTask_process_split example_wiki_task ?split [] = (insts, e)"
    by (cases "LanguageModelingTask_process_split example_wiki_task ?split []")
  have ti: "target_indexer example_wiki_task = Some [(''words'', SingleIdTokenIndexer ''tokens'')]"
    by (simp add: example_wiki_task_def WikiTextLMTask_init_def LanguageModelingTask_init_def Let_def
        SequenceGenerationTask_init_def Task_init_def)
  have ne: "\<forall>s\<in>set ?split. s \<noteq> []" by simp
  note th = lm_targets_are_rotations[OF run]
  from th ti ne have len: "length insts = 1" and e: "e = None" by simp_all
  from th len obtain ti' fw bw where
    "target_indexer example_wiki_task = Some ti'"
    and f1: "map_of (insts ! 0) ''targs'' = Some (TextField fw ti')"
    and f2: "map_of (insts ! 0) ''targs_b'' = Some (TextField bw ti')"
    and nth: "\<forall>i<length (?split ! 0).
                   fw ! i = (?split ! 0) ! ((i + 1) mod length (?split ! 0))
                 \<and> bw ! i = (?split ! 0) ! nat ((int i - 1) mod int (length (?split ! 0)))"
    by (auto simp del: nth_Cons_0)
  with ti have ti': "ti' = [(''words'', SingleIdTokenIndexer ''tokens'')]" by simp
  from nth[rule_format, of 0] have a: "fw ! 0 = ''a''" "bw ! 0 = ''<EOS>''" by simp_all
  from nth[rule_format, of 3] have b: "fw ! 3 = ''<SOS>''" by simp
  from nth[rule_format, of 1] have c: "bw ! 1 = ''<SOS>''" by simp
  from run e len f1 f2 ti' a b c show ?thesis by blast
qed

subsection \<open>Sentences for the vocabulary\<close>

lemma EdgeProbingTask_get_sentences_loop_filter:
  "EdgeProbingTask_get_sentences_loop its
     = EdgeProbingTask_get_sentences_loop (filter (\<lambda>(split, x). \<not> startswith split ''test'') its)"
  by (induction its rule: EdgeProbingTask_get_sentences_loop.induct) simp_all

lemma LanguageModelingTask_get_sentences_loop_filter:
  "LanguageModelingTask_get_sentences_loop ld fbs
     = LanguageModelingTask_get_sentences_loop ld (filter (\<lambda>(split, x). \<not> startswith split ''test'') fbs)"
  by (induction ld fbs rule: LanguageModelingTask_get_sentences_loop.induct) simp_all

lemma LanguageModelingTask_get_sentences_loop_cong:
  "(\<forall>(split, path)\<in>set fbs. \<not> startswith split ''test'' \<longrightarrow> ld path = ld' path) \<Longrightarrow>
   LanguageModelingTask_get_sentences_loop ld fbs = LanguageModelingTask_get_sentences_loop ld' fbs"
  by (induction ld fbs rule: LanguageModelingTask_get_sentences_loop.induct) simp_all

lemma RedditTask_get_sentences_loop_filter:
  "RedditTask_get_sentences_loop ld fbs
     = RedditTask_get_sentences_loop ld (filter (\<lambda>(split, x). \<not> startswith split ''test'') fbs)"
  by (induction ld fbs rule: RedditTask_get_sentences_loop.induct) simp_all

lemma RedditTask_get_sentences_loop_cong:
  "(\<forall>(split, path)\<in>set fbs. \<not> startswith split ''test'' \<longrightarrow> ld path = ld' path) \<Longrightarrow>
   RedditTask_get_sentences_loop ld fbs = RedditTask_get_sentences_loop ld' fbs"
  by (induction ld fbs rule: RedditTask_get_sentences_loop.induct) simp_all

lemma RedditPairClassificationTask_get_sentences_loop_filter:
  "RedditPairClassificationTask_get_sentences_loop ld fbs
     = RedditPairClassificationTask_get_sentences_loop ld (filter (\<lambda>(split, x). \<not> startswith split ''test'') fbs)"
  by (induction ld fbs rule: RedditPairClassificationTask_get_sentences_loop.induct) simp_all

lemma RedditPairClassificationTask_get_sentences_loop_cong:
  "(\<forall>(split, path)\<in>set fbs. \<not> startswith split ''test'' \<longrightarrow> ld path = ld' path) \<Longrightarrow>
   RedditPairClassificationTask_get_sentences_loop ld fbs = RedditPairClassificationTask_get_sentences_loop ld' fbs"
  by (induction ld fbs rule: RedditPairClassificationTask_get_sentences_loop.induct) simp_all

lemma DisSentTask_get_sentences_loop_filter:
  "DisSentTask_get_sentences_loop ld fbs
     = DisSentTask_get_sentences_loop ld (filter (\<lambda>(split, x). \<not> startswith split ''test'') fbs)"
  by (induction ld fbs rule: DisSentTask_get_sentences_loop.induct) simp_all

lemma DisSentTask_get_sentences_loop_cong:
  "(\<forall>(split, path)\<in>set fbs. \<not> startswith split ''test'' \<longrightarrow> ld path = ld' path) \<Longrightarrow>
   DisSentTask_get_sentences_loop ld fbs = DisSentTask_get_sentences_loop ld' fbs"
  by (induction ld fbs rule: DisSentTask_get_sentences_loop.induct) simp_all

lemma MTTask_get_sentences_loop_filter:
  "MTTask_get_sentences_loop ld fbs
     = MTTask_get_sentences_loop ld (filter (\<lambda>(split, x). \<not> startswith split ''test'') fbs)"
  by (induction ld fbs rule: MTTask_get_sentences_loop.induct) simp_all

lemma MTTask_get_sentences_loop_cong:
  "(\<forall>(split, path)\<in>set fbs. \<not> startswith split ''test'' \<longrightarrow> ld path = ld' path) \<Longrightarrow>
   MTTask_get_sentences_loop ld fbs = MTTask_get_sentences_loop ld' fbs"
  by (induction ld fbs rule: MTTask_get_sentences_loop.induct) simp_all

lemma Wiki103Classification_get_sentences_loop_filter:
  "Wiki103Classification_get_sentences_loop ld fbs
     = Wiki103Classification_get_sentences_loop ld (filter (\<lambda>(split, x). \<not> startswith split ''test'') fbs)"
  by (induction ld fbs rule: Wiki103Classification_get_sentences_loop.induct) simp_all

lemma Wiki103Classification_get_sentences_loop_cong:
  "(\<forall>(split, path)\<in>set fbs. \<not> startswith split ''test'' \<longrightarrow> ld path = ld' path) \<Longrightarrow>
   Wiki103Classification_get_sentences_loop ld fbs = Wiki103Classification_get_sentences_loop ld' fbs"
  by (induction ld fbs rule: Wiki103Classification_get_sentences_loop.induct) simp_all

lemma EdgeProbingTask_get_sentences_test_free:
  "(fst (EdgeProbingTask_get_sentences self)
        = (EdgeProbingTask_get_sentences_loop
             (filter (\<lambda>(split, iter). \<not> startswith split ''test'') (iters_by_split self)), None)
    \<and> (\<forall>self'. filter (\<lambda>(split, iter). \<not> startswith split ''test'') (iters_by_split self')
                 = filter (\<lambda>(split, iter). \<not> startswith split ''test'') (iters_by_split self)
            \<longrightarrow> fst (EdgeProbingTask_get_sentences self') = fst (EdgeProbingTask_get_sentences self))
    \<and> snd (EdgeProbingTask_get_sentences self) = self
    \<and> EdgeProbingTask_get_sentences (snd (EdgeProbingTask_get_sentences self))
        = EdgeProbingTask_get_sentences self)"
proof (intro conjI allI impI)
  show "fst (EdgeProbingTask_get_sentences self)
        = (EdgeProbingTask_get_sentences_loop
             (filter (\<lambda>(split, iter). \<not> startswith split ''test'') (iters_by_split self)), None)"
    using EdgeProbingTask_get_sentences_loop_filter[of "iters_by_split self"]
    by (simp add: EdgeProbingTask_get_sentences_def)
next
  fix self' :: task
  assume "filter (\<lambda>(split, iter). \<not> startswith split ''test'') (iters_by_split self')
                 = filter (\<lambda>(split, iter). \<not> startswith split ''test'') (iters_by_split self)"
  then show "fst (EdgeProbingTask_get_sentences self') = fst (EdgeProbingTask_get_sentences self)"
    using EdgeProbingTask_get_sentences_loop_filter[of "iters_by_split self"]
          EdgeProbingTask_get_sentences_loop_filter[of "iters_by_split self'"]
    by (simp add: EdgeProbingTask_get_sentences_def)
qed (simp_all add: EdgeProbingTask_get_sentences_def)

lemma LanguageModelingTask_get_sentences_test_free:
  "(fst (LanguageModelingTask_get_sentences ld self)
        = LanguageModelingTask_get_sentences_loop (ld self)
            (filter (\<lambda>(split, path). \<not> startswith split ''test'') (files_by_split self))
    \<and> (\<forall>ld'. (\<forall>(split, path)\<in>set (files_by_split self).
                  \<not> startswith split ''test'' \<longrightarrow> ld self path = ld' self path)
            \<longrightarrow> fst (LanguageModelingTask_get_sentences ld' self) = fst (LanguageModelingTask_get_sentences ld self))
    \<and> snd (LanguageModelingTask_get_sentences ld self) = self
    \<and> LanguageModelingTask_get_sentences ld (snd (LanguageModelingTask_get_sentences ld self)) = LanguageModelingTask_get_sentences ld self)"
proof (intro conjI allI impI)
  show "fst (LanguageModelingTask_get_sentences ld self)
        = LanguageModelingTask_get_sentences_loop (ld self)
            (filter (\<lambda>(split, path). \<not> startswith split ''test'') (files_by_split self))"
    using LanguageModelingTask_get_sentences_loop_filter[of "ld self" "files_by_split self"]
    by (simp add: LanguageModelingTask_get_sentences_def)
next
  fix ld'
  assume "\<forall>(split, path)\<in>set (files_by_split self).
            \<not> startswith split ''test'' \<longrightarrow> ld self path = ld' self path"
  then have "LanguageModelingTask_get_sentences_loop (ld self) (files_by_split self)
           = LanguageModelingTask_get_sentences_loop (ld' self) (files_by_split self)"
    by (rule LanguageModelingTask_get_sentences_loop_cong)
  then show "fst (LanguageModelingTask_get_sentences ld' self) = fst (LanguageModelingTask_get_sentences ld self)"
    by (simp add: LanguageModelingTask_get_sentences_def)
qed (simp_all add: LanguageModelingTask_get_sentences_def)

lemma RedditTask_get_sentences_test_free:
  "(fst (RedditTask_get_sentences ld self)
        = RedditTask_get_sentences_loop (ld self)
            (filter (\<lambda>(split, path). \<not> startswith split ''test'') (files_by_split self))
    \<and> (\<forall>ld'. (\<forall>(split, path)\<in>set (files_by_split self).
                  \<not> startswith split ''test'' \<longrightarrow> ld self path = ld' self path)
            \<longrightarrow> fst (RedditTask_get_sentences ld' self) = fst (RedditTask_get_sentences ld self))
    \<and> snd (RedditTask_get_sentences ld self) = self
    \<and> RedditTask_get_sentences ld (snd (RedditTask_get_sentences ld self)) = RedditTask_get_sentences ld self)"
proof (intro conjI allI impI)
  show "fst (RedditTask_get_sentences ld self)
        = RedditTask_get_sentences_loop (ld self)
            (filter (\<lambda>(split, path). \<not> startswith split ''test'') (files_by_split self))"
    using RedditTask_get_sentences_loop_filter[of "ld self" "files_by_split self"]
    by (simp add: RedditTask_get_sentences_def)
next
  fix ld'
  assume "\<forall>(split, path)\<in>set (files_by_split self).
            \<not> startswith split ''test'' \<longrightarrow> ld self path = ld' self path"
  then have "RedditTask_get_sentences_loop (ld self) (files_by_split self)
           = RedditTask_get_sentences_loop (ld' self) (files_by_split self)"
    by (rule RedditTask_get_sentences_loop_cong)
  then show "fst (RedditTask_get_sentences ld' self) = fst (RedditTask_get_sentences ld self)"
    by (simp add: RedditTask_get_sentences_def)
qed (simp_all add: RedditTask_get_sentences_def)

lemma RedditPairClassificationTask_get_sentences_test_free:
  "(fst (RedditPairClassificationTask_get_sentences ld self)
        = RedditPairClassificationTask_get_sentences_loop (ld self)
            (filter (\<lambda>(split, path). \<not> startswith split ''test'') (files_by_split self))
    \<and> (\<forall>ld'. (\<forall>(split, path)\<in>set (files_by_split self).
                  \<not> startswith split ''test'' \<longrightarrow> ld self path = ld' self path)
            \<longrightarrow> fst (RedditPairClassificationTask_get_sentences ld' self) = fst (RedditPairClassificationTask_get_sentences ld self))
    \<and> snd (RedditPairClassificationTask_get_sentences ld self) = self
    \<and> RedditPairClassificationTask_get_sentences ld (snd (RedditPairClassificationTask_get_sentences ld self)) = RedditPairClassificationTask_get_sentences ld self)"
proof (intro conjI allI impI)
  show "fst (RedditPairClassificationTask_get_sentences ld self)
        = RedditPairClassificationTask_get_sentences_loop (ld self)
            (filter (\<lambda>(split, path). \<not> startswith split ''test'') (files_by_split self))"
    using RedditPairClassificationTask_get_sentences_loop_filter[of "ld self" "files_by_split self"]
    by (simp add: RedditPairClassificationTask_get_sentences_def)
next
  fix ld'
  assume "\<forall>(split, path)\<in>set (files_by_split self).
            \<not> startswith split ''test'' \<longrightarrow> ld self path = ld' self path"
  then have "RedditPairClassificationTask_get_sentences_loop (ld self) (files_by_split self)
           = RedditPairClassificationTask_get_sentences_loop (ld' self) (files_by_split self)"
    by (rule RedditPairClassificationTask_get_sentences_loop_cong)
  then show "fst (RedditPairClassificationTask_get_sentences ld' self) = fst (RedditPairClassificationTask_get_sentences ld self)"
    by (simp add: RedditPairClassificationTask_get_sentences_def)
qed (simp_all add: RedditPairClassificationTask_get_sentences_def)

lemma DisSentTask_get_sentences_test_free:
  "(fst (DisSentTask_get_sentences ld self)
        = DisSentTask_get_sentences_loop (ld self)
            (filter (\<lambda>(split, path). \<not> startswith split ''test'') (files_by_split self))
    \<and> (\<forall>ld'. (\<forall>(split, path)\<in>set (files_by_split self).
                  \<not> startswith split ''test'' \<longrightarrow> ld self path = ld' self path)
            \<longrightarrow> fst (DisSentTask_get_sentences ld' self) = fst (DisSentTask_get_sentences ld self))
    \<and> snd (DisSentTask_get_sentences ld self) = self
    \<and> DisSentTask_get_sentences ld (snd (DisSentTask_get_sentences ld self)) = DisSentTask_get_sentences ld self)"
proof (intro conjI allI impI)
  show "fst (DisSentTask_get_sentences ld self)
        = DisSentTask_get_sentences_loop (ld self)
            (filter (\<lambda>(split, path). \<not> startswith split ''test'') (files_by_split self))"
    using DisSentTask_get_sentences_loop_filter[of "ld self" "files_by_split self"]
    by (simp add: DisSentTask_get_sentences_def)
next
  fix ld'
  assume "\<forall>(split, path)\<in>set (files_by_split self).
            \<not> startswith split ''test'' \<longrightarrow> ld self path = ld' self path"
  then have "DisSentTask_get_sentences_loop (ld self) (files_by_split self)
           = DisSentTask_get_sentences_loop (ld' self) (files_by_split self)"
    by (rule DisSentTask_get_sentences_loop_cong)
  then show "fst (DisSentTask_get_sentences ld' self) = fst (DisSentTask_get_sentences ld self)"
    by (simp add: DisSentTask_get_sentences_def)
qed (simp_all add: DisSentTask_get_sentences_def)

lemma MTTask_get_sentences_test_free:
  "(fst (MTTask_get_sentences ld self)
        = MTTask_get_sentences_loop (ld self)
            (filter (\<lambda>(split, path). \<not> startswith split ''test'') (files_by_split self))
    \<and> (\<forall>ld'. (\<forall>(split, path)\<in>set (files_by_split self).
                  \<not> startswith split ''test'' \<longrightarrow> ld self path = ld' self path)
            \<longrightarrow> fst (MTTask_get_sentences ld' self) = fst (MTTask_get_sentences ld self))
    \<and> snd (MTTask_get_sentences ld self) = self
    \<and> MTTask_get_sentences ld (snd (MTTask_get_sentences ld self)) = MTTask_get_sentences ld self)"
proof (intro conjI allI impI)
  show "fst (MTTask_get_sentences ld self)
        = MTTask_get_sentences_loop (ld self)
            (filter (\<lambda>(split, path). \<not> startswith split ''test'') (files_by_split self))"
    using MTTask_get_sentences_loop_filter[of "ld self" "files_by_split self"]
    by (simp add: MTTask_get_sentences_def)
next
  fix ld'
  assume "\<forall>(split, path)\<in>set (files_by_split self).
            \<not> startswith split ''test'' \<longrightarrow> ld self path = ld' self path"
  then have "MTTask_get_sentences_loop (ld self) (files_by_split self)
           = MTTask_get_sentences_loop (ld' self) (files_by_split self)"
    by (rule MTTask_get_sentences_loop_cong)
  then show "fst (MTTask_get_sentences ld' self) = fst (MTTask_get_sentences ld self)"
    by (simp add: MTTask_get_sentences_def)
qed (simp_all add: MTTask_get_sentences_def)

lemma Wiki103Classification_get_sentences_test_free:
  "(fst (Wiki103Classification_get_sentences ld self)
        = Wiki103Classification_get_sentences_loop (ld self)
            (filter (\<lambda>(split, path). \<not> startswith split ''test'') (files_by_split self))
    \<and> (\<forall>ld'. (\<forall>(split, path)\<in>set (files_by_split self).
                  \<not> startswith split ''test'' \<longrightarrow> ld self path = ld' self path)
            \<longrightarrow> fst (Wiki103Classification_get_sentences ld' self) = fst (Wiki103Classification_get_sentences ld self))
    \<and> snd (Wiki103Classification_get_sentences ld self) = self
    \<and> Wiki103Classification_get_sentences ld (snd (Wiki103Classification_get_sentences ld self)) = Wiki103Classification_get_sentences ld self)"
proof (intro conjI allI impI)
  show "fst (Wiki103Classification_get_sentences ld self)
        = Wiki103Classification_get_sentences_loop (ld self)
            (filter (\<lambda>(split, path). \<not> startswith split ''test'') (files_by_split self))"
    using Wiki103Classification_get_sentences_loop_filter[of "ld self" "files_by_split self"]
    by (simp add: Wiki103Classification_get_sentences_def)
next
  fix ld'
  assume "\<forall>(split, path)\<in>set (files_by_split self).
            \<not> startswith split ''test'' \<longrightarrow> ld self path = ld' self path"
  then have "Wiki103Classification_get_sentences_loop (ld self) (files_by_split self)
           = Wiki103Classification_get_sentences_loop (ld' self) (files_by_split self)"
    by (rule Wiki103Classification_get_sentences_loop_cong)
  then show "fst (Wiki103Classification_get_sentences ld' self) = fst (Wiki103Classification_get_sentences ld self)"
    by (simp add: Wiki103Classification_get_sentences_def)
qed (simp_all add: Wiki103Classification_get_sentences_def)

text \<open>
  C4. For each of the seven \<open>get_sentences\<close> methods of the streaming classes
  (\<open>EdgeProbingTask\<close>, \<open>LanguageModelingTask\<close>, \<open>RedditTask\<close>,
  \<open>RedditPairClassificationTask\<close>, \<open>DisSentTask\<close>, \<open>MTTask\<close>,
  \<open>Wiki103Classification\<close>; their subclasses inherit one of these and only override
  \<open>load_data\<close>, which is the argument \<open>ld\<close>): what the method yields is what its loop
  yields on the splits whose name does not begin with \<open>test\<close>; it is the same for any
  other \<open>load_data\<close> that agrees on the files of those splits (for edge probing: for any
  other task object with the same records in those splits), so nothing read for a test
  split is yielded; the method leaves the task object as it was, and a second call on it
  yields the same as the first.
\<close>

theorem get_sentences_excludes_test_and_repeats:
  "(fst (EdgeProbingTask_get_sentences self)
        = (EdgeProbingTask_get_sentences_loop
             (filter (\<lambda>(split, iter). \<not> startswith split ''test'') (iters_by_split self)), None)
    \<and> (\<forall>self'. filter (\<lambda>(split, iter). \<not> startswith split ''test'') (iters_by_split self')
                 = filter (\<lambda>(split, iter). \<not> startswith split ''test'') (iters_by_split self)
            \<longrightarrow> fst (EdgeProbingTask_get_sentences self') = fst (EdgeProbingTask_get_sentences self))
    \<and> snd (EdgeProbingTask_get_sentences self) = self
    \<and> EdgeProbingTask_get_sentences (snd (EdgeProbingTask_get_sentences self))
        = EdgeProbingTask_get_sentences self)
 \<and> (fst (LanguageModelingTask_get_sentences ld_lm self)
        = LanguageModelingTask_get_sentences_loop (ld_lm self)
            (filter (\<lambda>(split, path). \<not> startswith split ''test'') (files_by_split self))
    \<and> (\<forall>ld'. (\<forall>(split, path)\<in>set (files_by_split self).
                  \<not> startswith split ''test'' \<longrightarrow> ld_lm self path = ld' self path)
            \<longrightarrow> fst (LanguageModelingTask_get_sentences ld' self) = fst (LanguageModelingTask_get_sentences ld_lm self))
    \<and> snd (LanguageModelingTask_get_sentences ld_lm self) = self
    \<and> LanguageModelingTask_get_sentences ld_lm (snd (LanguageModelingTask_get_sentences ld_lm self)) = LanguageModelingTask_get_sentences ld_lm self)
 \<and> (fst (RedditTask_get_sentences ld_reddit self)
        = RedditTask_get_sentences_loop (ld_reddit self)
            (filter (\<lambda>(split, path). \<not> startswith split ''test'') (files_by_split self))
    \<and> (\<forall>ld'. (\<forall>(split, path)\<in>set (files_by_split self).
                  \<not> startswith split ''test'' \<longrightarrow> ld_reddit self path = ld' self path)
            \<longrightarrow> fst (RedditTask_get_sentences ld' self) = fst (RedditTask_get_sentences ld_reddit self))
    \<and> snd (RedditTask_get_sentences ld_reddit self) = self
    \<and> RedditTask_get_sentences ld_reddit (snd (RedditTask_get_sentences ld_reddit self)) = RedditTask_get_sentences ld_reddit self)
 \<and> (fst (RedditPairClassificationTask_get_sentences ld_pair self)
        = RedditPairClassificationTask_get_sentences_loop (ld_pair self)
            (filter (\<lambda>(split, path). \<not> startswith split ''test'') (files_by_split self))
    \<and> (\<forall>ld'. (\<forall>(split, path)\<in>set (files_by_split self).
                  \<not> startswith split ''test'' \<longrightarrow> ld_pair self path = ld' self path)
            \<longrightarrow> fst (RedditPairClassificationTask_get_sentences ld' self) = fst (RedditPairClassificationTask_get_sentences ld_pair self))
    \<and> snd (RedditPairClassificationTask_get_sentences ld_pair self) = self
    \<and> RedditPairClassificationTask_get_sentences ld_pair (snd (RedditPairClassificationTask_get_sentences ld_pair self)) = RedditPairClassificationTask_get_sentences ld_pair self)
 \<and> (fst (DisSentTask_get_sentences ld_dissent self)
        = DisSentTask_get_sentences_loop (ld_dissent self)
            (filter (\<lambda>(split, path). \<not> startswith split ''test'') (files_by_split self))
    \<and> (\<forall>ld'. (\<forall>(split, path)\<in>set (files_by_split self).
                  \<not> startswith split ''test'' \<longrightarrow> ld_dissent self path = ld' self path)
            \<longrightarrow> fst (DisSentTask_get_sentences ld' self) = fst (DisSentTask_get_sentences ld_dissent self))
    \<and> snd (DisSentTask_get_sentences ld_dissent self) = self
    \<and> DisSentTask_get_sentences ld_dissent (snd (DisSentTask_get_sentences ld_dissent self)) = DisSentTask_get_sentences ld_dissent self)
 \<and> (fst (MTTask_get_sentences ld_mt self)
        = MTTask_get_sentences_loop (ld_mt self)
            (filter (\<lambda>(split, path). \<not> startswith split ''test'') (files_by_split self))
    \<and> (\<forall>ld'. (\<forall>(split, path)\<in>set (files_by_split self).
                  \<not> startswith split ''test'' \<longrightarrow> ld_mt self path = ld' self path)
            \<longrightarrow> fst (MTTask_get_sentences ld' self) = fst (MTTask_get_sentences ld_mt self))
    \<and> snd (MTTask_get_sentences ld_mt self) = self
    \<and> MTTask_get_sentences ld_mt (snd (MTTask_get_sentences ld_mt self)) = MTTask_get_sentences ld_mt self)
 \<and> (fst (Wiki103Classification_get_sentences ld_wiki self)
        = Wiki103Classification_get_sentences_loop (ld_wiki self)
            (filter (\<lambda>(split, path). \<not> startswith split ''test'') (files_by_split self))
    \<and> (\<forall>ld'. (\<forall>(split, path)\<in>set (files_by_split self).
                  \<not> startswith split ''test'' \<longrightarrow> ld_wiki self path = ld' self path)
            \<longrightarrow> fst (Wiki103Classification_get_sentences ld' self) = fst (Wiki103Classification_get_sentences ld_wiki self))
    \<and> snd (Wiki103Classification_get_sentences ld_wiki self) = self
    \<and> Wiki103Classification_get_sentences ld_wiki (snd (Wiki103Classification_get_sentences ld_wiki self)) = Wiki103Classification_get_sentences ld_wiki self)"
proof -
  note e = EdgeProbingTask_get_sentences_test_free[of self]
  note ld_lm_p = LanguageModelingTask_get_sentences_test_free[of ld_lm self]
  note ld_reddit_p = RedditTask_get_sentences_test_free[of ld_reddit self]
  note ld_pair_p = RedditPairClassificationTask_get_sentences_test_free[of ld_pair self]
  note ld_dissent_p = DisSentTask_get_sentences_test_free[of ld_dissent self]
  note ld_mt_p = MTTask_get_sentences_test_free[of ld_mt self]
  note ld_wiki_p = Wiki103Classification_get_sentences_test_free[of ld_wiki self]
  show ?thesis
    by (rule conjI, rule e, rule conjI, rule ld_lm_p, rule conjI, rule ld_reddit_p, rule conjI, rule ld_pair_p, rule conjI, rule ld_dissent_p, rule conjI, rule ld_mt_p, rule ld_wiki_p)
qed

lemma example_wiki_train_rows:
  "open_file example_externals ''wiki/train.txt''
     = Some ['' = Title = '', ''a==b c'', [], ''x'', ''the <unk> ran'']"
  "WikiTextLMTask_load_data_rows example_externals example_wiki_task
     ['' = Title = '', ''a==b c'', [], ''x'', ''the <unk> ran'']
     = ([[''<SOS>'', ''a==b'', ''c'', ''<EOS>''], [''<SOS>'', ''the'', ''@@UNKNOWN@@'', ''ran'', ''<EOS>'']], None)"
  by code_simp+

lemma example_wiki_train:
  "WikiTextLMTask_load_data example_externals example_wiki_task ''wiki/train.txt''
     = ([[''<SOS>'', ''a==b'', ''c'', ''<EOS>''], [''<SOS>'', ''the'', ''@@UNKNOWN@@'', ''ran'', ''<EOS>'']], None)"
  by (simp only: WikiTextLMTask_load_data_def example_wiki_train_rows option.case)

lemma example_wiki_valid_rows:
  "open_file example_externals ''wiki/valid.txt'' = Some [''one two'']"
  "WikiTextLMTask_load_data_rows example_externals example_wiki_task [''one two'']
     = ([[''<SOS>'', ''one'', ''two'', ''<EOS>'']], None)"
  by code_simp+

lemma example_wiki_valid:
  "WikiTextLMTask_load_data example_externals example_wiki_task ''wiki/valid.txt''
     = ([[''<SOS>'', ''one'', ''two'', ''<EOS>'']], None)"
  by (simp only: WikiTextLMTask_load_data_def example_wiki_valid_rows option.case)

lemma example_wiki_files:
  "files_by_split example_wiki_task
     = [(''train'', ''wiki/train.txt''), (''val'', ''wiki/valid.txt''), (''test'', ''wiki/test.txt'')]"
  by code_simp

lemma example_edge_iters:
  "iters_by_split example_edge_task
     = [(''train'', [example_records ! 0, example_records ! 3]),
        (''test'', [\<lparr> r_text = ''held out'',
                       r_targets = Some [\<lparr> span1 = (0, 1), span2 = None, label = LStr ''A'' \<rparr>] \<rparr>])]"
  by code_simp

lemma WikiTextLMTask_load_data_rows_open_file:
  "WikiTextLMTask_load_data_rows (U\<lparr>open_file := g\<rparr>) self rows
     = WikiTextLMTask_load_data_rows U self rows"
  by (induction rows) (simp_all add: atomic_tokenize_def Let_def split: sum.splits)

lemma WikiTextLMTask_load_data_other_file:
  "path \<noteq> p \<Longrightarrow>
   WikiTextLMTask_load_data (U\<lparr>open_file := (open_file U)(p := v)\<rparr>) self path
     = WikiTextLMTask_load_data U self path"
  by (simp add: WikiTextLMTask_load_data_def WikiTextLMTask_load_data_rows_open_file
           split: option.splits)

theorem get_sentences_excludes_test_and_repeats_witness:
  "fst (LanguageModelingTask_get_sentences (WikiTextLMTask_load_data example_externals) example_wiki_task)
     = ([[''<SOS>'', ''a==b'', ''c'', ''<EOS>''], [''<SOS>'', ''the'', ''@@UNKNOWN@@'', ''ran'', ''<EOS>''],
         [''<SOS>'', ''one'', ''two'', ''<EOS>'']], None)
   \<and> fst (LanguageModelingTask_get_sentences
            (WikiTextLMTask_load_data
               (example_externals\<lparr>open_file := (open_file example_externals)
                                   (''wiki/test.txt'' := Some [''other words''])\<rparr>))
            example_wiki_task)
     = fst (LanguageModelingTask_get_sentences (WikiTextLMTask_load_data example_externals) example_wiki_task)
   \<and> fst (EdgeProbingTask_get_sentences example_edge_task)
     = ([[''The'', ''cat'', ''sat''], [''Dogs'', ''bark'', ''loudly'']], None)
   \<and> fst (EdgeProbingTask_get_sentences (example_edge_task\<lparr>iters_by_split :=
              [(''train'', [example_records ! 0, example_records ! 3]), (''test'', [])]\<rparr>))
     = fst (EdgeProbingTask_get_sentences example_edge_task)"
proof -
  let ?U' = "example_externals\<lparr>open_file := (open_file example_externals)
                                   (''wiki/test.txt'' := Some [''other words''])\<rparr>"
  let ?T' = "example_edge_task\<lparr>iters_by_split :=
              [(''train'', [example_records ! 0, example_records ! 3]), (''test'', [])]\<rparr>"
  note th = get_sentences_excludes_test_and_repeats[of example_edge_task
      "WikiTextLMTask_load_data example_externals" "RedditTask_load_data example_externals"
      "RedditPairClassificationTask_load_data example_externals" "DisSentTask_load_data example_externals"
      "MTTask_load_data example_externals" "Wiki103Classification_load_data example_externals"]
  note tw = get_sentences_excludes_test_and_repeats[of example_wiki_task
      "WikiTextLMTask_load_data example_externals" "RedditTask_load_data example_externals"
      "RedditPairClassificationTask_load_data example_externals" "DisSentTask_load_data example_externals"
      "MTTask_load_data example_externals" "Wiki103Classification_load_data example_externals"]
  have agree: "\<forall>(split, path)\<in>set (files_by_split example_wiki_task).
          \<not> startswith split ''test'' \<longrightarrow>
          WikiTextLMTask_load_data example_externals example_wiki_task path
            = WikiTextLMTask_load_data ?U' example_wiki_task path"
    by (simp add: example_wiki_files startswith_def WikiTextLMTask_load_data_other_file)
  from tw have
    lm1: "fst (LanguageModelingTask_get_sentences (WikiTextLMTask_load_data example_externals) example_wiki_task)
        = LanguageModelingTask_get_sentences_loop
            (WikiTextLMTask_load_data example_externals example_wiki_task)
            (filter (\<lambda>(split, path). \<not> startswith split ''test'') (files_by_split example_wiki_task))"
    and lm2: "\<forall>ld'. (\<forall>(split, path)\<in>set (files_by_split example_wiki_task).
                  \<not> startswith split ''test'' \<longrightarrow>
                  WikiTextLMTask_load_data example_externals example_wiki_task path = ld' example_wiki_task path)
            \<longrightarrow> fst (LanguageModelingTask_get_sentences ld' example_wiki_task)
                = fst (LanguageModelingTask_get_sentences (WikiTextLMTask_load_data example_externals) example_wiki_task)"
    by blast+
  have a: "fst (LanguageModelingTask_get_sentences (WikiTextLMTask_load_data example_externals) example_wiki_task)
     = ([[''<SOS>'', ''a==b'', ''c'', ''<EOS>''], [''<SOS>'', ''the'', ''@@UNKNOWN@@'', ''ran'', ''<EOS>''],
         [''<SOS>'', ''one'', ''two'', ''<EOS>'']], None)"
    unfolding lm1 by (simp add: example_wiki_files startswith_def example_wiki_train example_wiki_valid)
  have b: "fst (LanguageModelingTask_get_sentences (WikiTextLMTask_load_data ?U') example_wiki_task)
     = fst (LanguageModelingTask_get_sentences (WikiTextLMTask_load_data example_externals) example_wiki_task)"
    using lm2[rule_format, of "WikiTextLMTask_load_data ?U'"] agree by blast
  from th have
    e1: "fst (EdgeProbingTask_get_sentences example_edge_task)
        = (EdgeProbingTask_get_sentences_loop
             (filter (\<lambda>(split, iter). \<not> startswith split ''test'') (iters_by_split example_edge_task)), None)"
    and e2: "\<forall>self'. filter (\<lambda>(split, iter). \<not> startswith split ''test'') (iters_by_split self')
                 = filter (\<lambda>(split, iter). \<not> startswith split ''test'') (iters_by_split example_edge_task)
            \<longrightarrow> fst (EdgeProbingTask_get_sentences self') = fst (EdgeProbingTask_get_sentences example_edge_task)"
    by blast+
  have sw: "split_ws ''The cat sat'' = [''The'', ''cat'', ''sat'']"
           "split_ws ''Dogs bark loudly'' = [''Dogs'', ''bark'', ''loudly'']"
    by (simp_all add: split_ws_def isspace_def)
  have c: "fst (EdgeProbingTask_get_sentences example_edge_task)
     = ([[''The'', ''cat'', ''sat''], [''Dogs'', ''bark'', ''loudly'']], None)"
    unfolding e1 by (simp add: example_edge_iters startswith_def example_records_def sw)
  have d: "fst (EdgeProbingTask_get_sentences ?T') = fst (EdgeProbingTask_get_sentences example_edge_task)"
    using e2[rule_format, of ?T'] by (simp add: example_edge_iters startswith_def)
  from a b c d show ?thesis by blast
qed

subsection \<open>WikiText: filtered lines\<close>

lemma atomic_tokenize_wikitext:
  "atomic_tokenize U toks UNK_TOK_ATOMIC [UNK_TOK_ALLENNLP, ''<unk>''] n
     = Inr (map (\<lambda>t. if t = UNK_TOK_ATOMIC then UNK_TOK_ALLENNLP else t)
             (process_sentence U
                (str_replace ''<unk>'' UNK_TOK_ATOMIC (str_replace UNK_TOK_ALLENNLP UNK_TOK_ATOMIC toks))
                n (SOS_TOK U) (EOS_TOK U)))"
  by (simp add: atomic_tokenize_def substitute_back_def Let_def)

lemma WikiTextLMTask_load_data_rows_eq:
  assumes S: "\<And>toks. atomic_tokenize U toks UNK_TOK_ATOMIC [UNK_TOK_ALLENNLP, ''<unk>'']
                 (max_seq_len self) = Inr (S toks)"
  shows "WikiTextLMTask_load_data_rows U self rows
     = (map S (filter (\<lambda>toks. toks \<noteq> [] \<and> \<not> 2 \<le> count_list (S toks) ''=''
                               \<and> \<not> int (length toks) < min_seq_len self + 2)
                      (map strip rows)), None)"
proof (induction rows)
  case Nil
  show ?case by simp
next
  case (Cons row rows)
  show ?case
    by (simp add: Let_def S Cons.IH)
qed

text \<open>
  C7 (amended). \<open>WikiTextLMTask.load_data\<close> decides on the processed sentence, not on
  the characters of the line. With \<open>S toks\<close> the sentence that \<open>_atomic_tokenize\<close>
  returns for a stripped line \<open>toks\<close> (which never raises here), the method yields, in
  order, \<open>S toks\<close> for exactly the lines whose stripped form \<open>toks\<close> is not empty, whose
  sentence \<open>S toks\<close> has fewer than two tokens equal to \<open>"="\<close>, and whose stripped form has
  at least \<open>min_seq_len + 2\<close> characters; every other line is dropped.
\<close>

theorem wikitext_load_data_filters_on_tokens:
  "\<exists>S. (\<forall>toks. atomic_tokenize U toks UNK_TOK_ATOMIC [UNK_TOK_ALLENNLP, ''<unk>'']
                  (max_seq_len self) = Inr (S toks))
      \<and> (\<forall>toks. S toks = map (\<lambda>t. if t = ''UNKNOWN'' then ''@@UNKNOWN@@'' else t)
             (process_sentence U
                (str_replace ''<unk>'' ''UNKNOWN'' (str_replace ''@@UNKNOWN@@'' ''UNKNOWN'' toks))
                (max_seq_len self) (SOS_TOK U) (EOS_TOK U)))
      \<and> WikiTextLMTask_load_data_rows U self rows
          = (map S (filter (\<lambda>toks. toks \<noteq> [] \<and> \<not> 2 \<le> count_list (S toks) ''=''
                                    \<and> \<not> int (length toks) < min_seq_len self + 2)
                           (map strip rows)), None)
      \<and> WikiTextLMTask_load_data U self path
          = (case open_file U path of
               None \<Rightarrow> ([], Some FileNotFoundError)
             | Some rows \<Rightarrow>
                 (map S (filter (\<lambda>toks. toks \<noteq> [] \<and> \<not> 2 \<le> count_list (S toks) ''=''
                                          \<and> \<not> int (length toks) < min_seq_len self + 2)
                                 (map strip rows)), None))"
proof -
  let ?S = "\<lambda>toks. map (\<lambda>t. if t = ''UNKNOWN'' then ''@@UNKNOWN@@'' else t)
             (process_sentence U
                (str_replace ''<unk>'' ''UNKNOWN'' (str_replace ''@@UNKNOWN@@'' ''UNKNOWN'' toks))
                (max_seq_len self) (SOS_TOK U) (EOS_TOK U))"
  have S: "\<And>toks. atomic_tokenize U toks UNK_TOK_ATOMIC [UNK_TOK_ALLENNLP, ''<unk>'']
                 (max_seq_len self) = Inr (?S toks)"
    using atomic_tokenize_wikitext[of U _ "max_seq_len self"]
    by (simp add: UNK_TOK_ATOMIC_def UNK_TOK_ALLENNLP_def)
  have rows: "\<And>rows. WikiTextLMTask_load_data_rows U self rows
          = (map ?S (filter (\<lambda>toks. toks \<noteq> [] \<and> \<not> 2 \<le> count_list (?S toks) ''=''
                                    \<and> \<not> int (length toks) < min_seq_len self + 2)
                           (map strip rows)), None)"
    by (rule WikiTextLMTask_load_data_rows_eq[OF S])
  have ld: "WikiTextLMTask_load_data U self path
          = (case open_file U path of
               None \<Rightarrow> ([], Some FileNotFoundError)
             | Some rows \<Rightarrow>
                 (map ?S (filter (\<lambda>toks. toks \<noteq> [] \<and> \<not> 2 \<le> count_list (?S toks) ''=''
                                          \<and> \<not> int (length toks) < min_seq_len self + 2)
                                 (map strip rows)), None))"
    by (simp add: WikiTextLMTask_load_data_def rows split: option.splits)
  show ?thesis
    by (rule exI[of _ ?S]) (intro conjI allI S refl rows ld)
qed

theorem wikitext_equals_characters_counterexample:
  "2 \<le> count_list ''a==b c'' (CHR ''='')
   \<and> WikiTextLMTask_load_data_rows example_externals (WikiTextLMTask_init ''wiki'' 10 ''wiki'') [''a==b c'']
       = ([[''<SOS>'', ''a==b'', ''c'', ''<EOS>'']], None)
   \<and> 2 \<le> count_list '' = Title = '' (CHR ''='')
   \<and> WikiTextLMTask_load_data_rows example_externals (WikiTextLMTask_init ''wiki'' 3 ''wiki'') ['' = Title = '']
       = ([[''<SOS>'', ''='', ''<EOS>'']], None)"
  by code_simp

subsection \<open>The diagnostic task: the fields of the dimensions\<close>

lemma create_labels_loop_other:
  "(\<forall>tag. key \<noteq> tag_group @ ''__'' @ tag) \<Longrightarrow>
   map_of (create_labels_loop ix_to_tag_dict tag_arr tag_group d) key = map_of d key"
proof (induction ix_to_tag_dict arbitrary: d)
  case Nil
  show ?case by simp
next
  case (Cons a rest)
  obtain ix tag where a: "a = (ix, tag)" by (cases a)
  from Cons.prems have ne: "key \<noteq> tag_group @ ''__'' @ tag" by blast
  show ?case
    using Cons.IH[OF Cons.prems] ne by (simp add: a Let_def update_conv')
qed

lemma create_labels_from_tags_group:
  "map_of (create_labels_from_tags d ix_to_tag_dict tag_arr tag_group) tag_group
     = Some (LabelField (if tag_arr = [] then 0 else 1) tag_group True)"
proof -
  have "\<forall>tag. tag_group \<noteq> tag_group @ ''__'' @ tag" by simp
  from create_labels_loop_other[OF this] show ?thesis
    by (simp add: create_labels_from_tags_def Let_def update_conv')
qed

lemma create_labels_from_tags_other:
  "key \<noteq> tag_group \<Longrightarrow> (\<forall>tag. key \<noteq> tag_group @ ''__'' @ tag) \<Longrightarrow>
   map_of (create_labels_from_tags d ix_to_tag_dict tag_arr tag_group) key = map_of d key"
  by (simp add: create_labels_from_tags_def Let_def update_conv' create_labels_loop_other)

lemma MultiNLIDiagnosticTask_make_instance_groups:
  "map_of (MultiNLIDiagnosticTask_make_instance self ixs
             (input1, input2, lab, idx, ls, pa, lo, kn)) ''lex_sem''
     = Some (LabelField (if ls = [] then 0 else 1) ''lex_sem'' True)"
  "map_of (MultiNLIDiagnosticTask_make_instance self ixs
             (input1, input2, lab, idx, ls, pa, lo, kn)) ''pr_ar_str''
     = Some (LabelField (if pa = [] then 0 else 1) ''pr_ar_str'' True)"
  "map_of (MultiNLIDiagnosticTask_make_instance self ixs
             (input1, input2, lab, idx, ls, pa, lo, kn)) ''logic''
     = Some (LabelField (if lo = [] then 0 else 1) ''logic'' True)"
  "map_of (MultiNLIDiagnosticTask_make_instance self ixs
             (input1, input2, lab, idx, ls, pa, lo, kn)) ''knowledge''
     = Some (LabelField (if kn = [] then 0 else 1) ''knowledge'' True)"
  by (simp_all add: MultiNLIDiagnosticTask_make_instance_def Let_def
        create_labels_from_tags_group create_labels_from_tags_other)

lemma diag_rows_nth:
  "k < length (diag_rows split) \<Longrightarrow>
   diag_rows split ! k
     = (c_sents1 split ! k, c_sents2 split ! k, c_targs split ! k, c_idxs split ! k,
        c_lex_sem split ! k, c_pr_ar_str split ! k, c_logic split ! k, c_knowledge split ! k)"
  by (simp add: diag_rows_def)

text \<open>
  C9. \<open>MultiNLIDiagnosticTask.process_split\<close> yields one Instance per row, as many as
  the shortest column has entries, and in the Instance of row \<open>k\<close> the field of each of
  the four dimensions \<open>lex_sem\<close>, \<open>pr_ar_str\<close>, \<open>logic\<close> and \<open>knowledge\<close> is the label
  0 when the row's tag array of that dimension is empty and the label 1 when it is not;
  the four hold together in the same Instance, whatever the tag dictionaries are.
\<close>

theorem diagnostic_any_tag_fields:
  "length (MultiNLIDiagnosticTask_process_split self split ixs)
     = Min {length (c_sents1 split), length (c_sents2 split), length (c_targs split),
            length (c_idxs split), length (c_lex_sem split), length (c_pr_ar_str split),
            length (c_logic split), length (c_knowledge split)}
   \<and> (\<forall>k<length (MultiNLIDiagnosticTask_process_split self split ixs).
          map_of (MultiNLIDiagnosticTask_process_split self split ixs ! k) ''lex_sem''
            = Some (LabelField (if c_lex_sem split ! k = [] then 0 else 1) ''lex_sem'' True)
        \<and> map_of (MultiNLIDiagnosticTask_process_split self split ixs ! k) ''pr_ar_str''
            = Some (LabelField (if c_pr_ar_str split ! k = [] then 0 else 1) ''pr_ar_str'' True)
        \<and> map_of (MultiNLIDiagnosticTask_process_split self split ixs ! k) ''logic''
            = Some (LabelField (if c_logic split ! k = [] then 0 else 1) ''logic'' True)
        \<and> map_of (MultiNLIDiagnosticTask_process_split self split ixs ! k) ''knowledge''
            = Some (LabelField (if c_knowledge split ! k = [] then 0 else 1) ''knowledge'' True))"
proof (intro conjI allI impI)
  show "length (MultiNLIDiagnosticTask_process_split self split ixs)
     = Min {length (c_sents1 split), length (c_sents2 split), length (c_targs split),
            length (c_idxs split), length (c_lex_sem split), length (c_pr_ar_str split),
            length (c_logic split), length (c_knowledge split)}"
    by (simp add: MultiNLIDiagnosticTask_process_split_def diag_rows_def)
next
  fix k assume "k < length (MultiNLIDiagnosticTask_process_split self split ixs)"
  then have k: "k < length (diag_rows split)"
    by (simp add: MultiNLIDiagnosticTask_process_split_def)
  have nth: "MultiNLIDiagnosticTask_process_split self split ixs ! k
      = MultiNLIDiagnosticTask_make_instance self ixs
         (c_sents1 split ! k, c_sents2 split ! k, c_targs split ! k, c_idxs split ! k,
          c_lex_sem split ! k, c_pr_ar_str split ! k, c_logic split ! k, c_knowledge split ! k)"
    using k by (simp add: MultiNLIDiagnosticTask_process_split_def diag_rows_nth)
  show "map_of (MultiNLIDiagnosticTask_process_split self split ixs ! k) ''lex_sem''
            = Some (LabelField (if c_lex_sem split ! k = [] then 0 else 1) ''lex_sem'' True)"
    by (simp only: nth MultiNLIDiagnosticTask_make_instance_groups)
  show "map_of (MultiNLIDiagnosticTask_process_split self split ixs ! k) ''pr_ar_str''
            = Some (LabelField (if c_pr_ar_str split ! k = [] then 0 else 1) ''pr_ar_str'' True)"
    by (simp only: nth MultiNLIDiagnosticTask_make_instance_groups)
  show "map_of (MultiNLIDiagnosticTask_process_split self split ixs ! k) ''logic''
            = Some (LabelField (if c_logic split ! k = [] then 0 else 1) ''logic'' True)"
    by (simp only: nth MultiNLIDiagnosticTask_make_instance_groups)
  show "map_of (MultiNLIDiagnosticTask_process_split self split ixs ! k) ''knowledge''
            = Some (LabelField (if c_knowledge split ! k = [] then 0 else 1) ''knowledge'' True)"
    by (simp only: nth MultiNLIDiagnosticTask_make_instance_groups)
qed

theorem diagnostic_any_tag_fields_witness:
  "length (MultiNLIDiagnosticTask_process_split
             (MultiNLIDiagnosticTask_init [(0, ''missing''), (1, ''Quantifiers'')] [(1, ''Ellipsis'')]
                [(0, ''missing''), (1, ''Negation''), (2, ''Conditionals'')] [] ''MNLI/'' 40 ''mnli-diagnostic'')
             example_diag_split []) = 2
   \<and> map_of (MultiNLIDiagnosticTask_process_split
             (MultiNLIDiagnosticTask_init [(0, ''missing''), (1, ''Quantifiers'')] [(1, ''Ellipsis'')]
                [(0, ''missing''), (1, ''Negation''), (2, ''Conditionals'')] [] ''MNLI/'' 40 ''mnli-diagnostic'')
             example_diag_split [] ! 0) ''lex_sem'' = Some (LabelField 0 ''lex_sem'' True)
   \<and> map_of (MultiNLIDiagnosticTask_process_split
             (MultiNLIDiagnosticTask_init [(0, ''missing''), (1, ''Quantifiers'')] [(1, ''Ellipsis'')]
                [(0, ''missing''), (1, ''Negation''), (2, ''Conditionals'')] [] ''MNLI/'' 40 ''mnli-diagnostic'')
             example_diag_split [] ! 0) ''pr_ar_str'' = Some (LabelField 1 ''pr_ar_str'' True)
   \<and> map_of (MultiNLIDiagnosticTask_process_split
             (MultiNLIDiagnosticTask_init [(0, ''missing''), (1, ''Quantifiers'')] [(1, ''Ellipsis'')]
                [(0, ''missing''), (1, ''Negation''), (2, ''Conditionals'')] [] ''MNLI/'' 40 ''mnli-diagnostic'')
             example_diag_split [] ! 0) ''logic'' = Some (LabelField 1 ''logic'' True)
   \<and> map_of (MultiNLIDiagnosticTask_process_split
             (MultiNLIDiagnosticTask_init [(0, ''missing''), (1, ''Quantifiers'')] [(1, ''Ellipsis'')]
                [(0, ''missing''), (1, ''Negation''), (2, ''Conditionals'')] [] ''MNLI/'' 40 ''mnli-diagnostic'')
             example_diag_split [] ! 0) ''knowledge'' = Some (LabelField 0 ''knowledge'' True)
   \<and> map_of (MultiNLIDiagnosticTask_process_split
             (MultiNLIDiagnosticTask_init [(0, ''missing''), (1, ''Quantifiers'')] [(1, ''Ellipsis'')]
                [(0, ''missing''), (1, ''Negation''), (2, ''Conditionals'')] [] ''MNLI/'' 40 ''mnli-diagnostic'')
             example_diag_split [] ! 1) ''lex_sem'' = Some (LabelField 1 ''lex_sem'' True)"
proof -
  let ?T = "MultiNLIDiagnosticTask_init [(0, ''missing''), (1, ''Quantifiers'')] [(1, ''Ellipsis'')]
                [(0, ''missing''), (1, ''Negation''), (2, ''Conditionals'')] [] ''MNLI/'' 40 ''mnli-diagnostic''"
  note th = diagnostic_any_tag_fields[of ?T example_diag_split "[]"]
  have mn: "Min {length (c_sents1 example_diag_split), length (c_sents2 example_diag_split),
            length (c_targs example_diag_split), length (c_idxs example_diag_split),
            length (c_lex_sem example_diag_split), length (c_pr_ar_str example_diag_split),
            length (c_logic example_diag_split), length (c_knowledge example_diag_split)} = 2"
    by (simp add: example_diag_split_def)
  from th[THEN conjunct1] have len: "length (MultiNLIDiagnosticTask_process_split ?T example_diag_split []) = 2"
    by (simp only: mn)
  have k0: "0 < length (MultiNLIDiagnosticTask_process_split ?T example_diag_split [])"
    and k1: "1 < length (MultiNLIDiagnosticTask_process_split ?T example_diag_split [])"
    by (simp_all add: len)
  have cols: "c_lex_sem example_diag_split ! 0 = []" "c_pr_ar_str example_diag_split ! 0 \<noteq> []"
    "c_logic example_diag_split ! 0 \<noteq> []" "c_knowledge example_diag_split ! 0 = []"
    "c_lex_sem example_diag_split ! 1 \<noteq> []"
    by (simp_all add: example_diag_split_def)
  note r0 = th[THEN conjunct2, rule_format, OF k0]
  note r1 = th[THEN conjunct2, rule_format, OF k1]
  show ?thesis
    using len r0 r1 by (simp only: cols if_True if_False simp_thms)
qed

subsection \<open>The validation metric\<close>







lemma EdgeProbingTask_init_attrs:
  assumes "EdgeProbingTask_init U path max_len nm label_file fbs symm single = Inr self"
  shows "name self = nm" and "val_metric self = Some (nm @ ''_f1'')"
    and "mcc_scorer self = Some FastMatthews" and "acc_scorer self = Some BooleanAccuracy"
    and "f1_scorer self = Some (F1Measure 1)"
    and "scorer1 self = None" and "scorer2 self = None" and "scorer3 self = None"
    and "attr_scorers self = []"
  using assms
  by (auto simp: EdgeProbingTask_init_def Let_def Task_init_def split: option.splits sum.splits)

lemma EdgeProbingTask_get_metrics_eq:
  "EdgeProbingTask_get_metrics rd rd3 self reset
     = [(''mcc'', rd Mcc_scorer reset), (''acc'', rd Acc_scorer reset),
        (''precision'', fst (rd3 F1_scorer reset)), (''recall'', fst (snd (rd3 F1_scorer reset))),
        (''f1'', snd (snd (rd3 F1_scorer reset)))]"
  by (simp add: EdgeProbingTask_get_metrics_def Let_def split: prod.splits)




subsection \<open>Edge probing: aggregators and metrics\<close>

lemma example_edge_task_init:
  "EdgeProbingTask_init example_externals ''data'' 40 ''edges-demo'' (Some ''labels.txt'')
     (Some [(''train'', ''train.json''), (''test'', ''test.json'')]) False False
   = Inr example_edge_task"
proof -
  have "\<exists>self. EdgeProbingTask_init example_externals ''data'' 40 ''edges-demo'' (Some ''labels.txt'')
       (Some [(''train'', ''train.json''), (''test'', ''test.json'')]) False False = Inr self"
    by (simp add: EdgeProbingTask_init_def EdgeProbingTask_load_data_def stream_records_def
        example_externals_def os_path_join_def startswith_def tokenizer_suffix_def tokenizer_name_def
        Let_def Task_init_def split: prod.splits)
  then show ?thesis by (auto simp: example_edge_task_def)
qed

text \<open>
  C8 (amended). An edge-probing task that was constructed holds exactly three
  aggregators, \<open>FastMatthews\<close> in \<open>mcc_scorer\<close>, \<open>BooleanAccuracy\<close> in \<open>acc_scorer\<close> and
  \<open>F1Measure\<close> with positive label 1 in \<open>f1_scorer\<close>, and every call of \<open>get_metrics\<close>
  returns a dictionary of exactly five entries read from them, under the distinct keys
  \<open>mcc\<close>, \<open>acc\<close>, \<open>precision\<close>, \<open>recall\<close> and \<open>f1\<close>.
\<close>

theorem edge_probing_three_aggregators_five_metrics:
  assumes "EdgeProbingTask_init U path max_len nm label_file fbs symm single = Inr self"
  shows "mcc_scorer self = Some FastMatthews
       \<and> acc_scorer self = Some BooleanAccuracy
       \<and> f1_scorer self = Some (F1Measure 1)
       \<and> scorer1 self = None \<and> scorer2 self = None \<and> scorer3 self = None
       \<and> attr_scorers self = []
       \<and> EdgeProbingTask_get_metrics rd rd3 self reset
           = [(''mcc'', rd Mcc_scorer reset), (''acc'', rd Acc_scorer reset),
              (''precision'', fst (rd3 F1_scorer reset)),
              (''recall'', fst (snd (rd3 F1_scorer reset))),
              (''f1'', snd (snd (rd3 F1_scorer reset)))]
       \<and> length (EdgeProbingTask_get_metrics rd rd3 self reset) = 5
       \<and> distinct (map fst (EdgeProbingTask_get_metrics rd rd3 self reset))"
  using EdgeProbingTask_init_attrs(3-9)[OF assms]
  by (simp add: EdgeProbingTask_get_metrics_eq)

theorem edge_probing_three_aggregators_five_metrics_witness:
  "EdgeProbingTask_init example_externals ''data'' 40 ''edges-demo'' (Some ''labels.txt'')
     (Some [(''train'', ''train.json''), (''test'', ''test.json'')]) False False
   = Inr example_edge_task
   \<and> mcc_scorer example_edge_task = Some FastMatthews
   \<and> acc_scorer example_edge_task = Some BooleanAccuracy
   \<and> f1_scorer example_edge_task = Some (F1Measure 1)
   \<and> EdgeProbingTask_get_metrics example_rd example_rd3 example_edge_task True
       = [(''mcc'', 3 / 4), (''acc'', 3 / 4), (''precision'', 1 / 2), (''recall'', 1 / 4), (''f1'', 1 / 3)]"
  using edge_probing_three_aggregators_five_metrics[OF example_edge_task_init, of example_rd example_rd3 True]
        example_edge_task_init
  by (simp add: example_rd_def example_rd3_def)

theorem edge_probing_four_metrics_counterexample:
  "length (EdgeProbingTask_get_metrics example_rd example_rd3 example_edge_task True) = 5
   \<and> length (EdgeProbingTask_get_metrics example_rd example_rd3 example_edge_task True) \<noteq> 4
   \<and> map fst (EdgeProbingTask_get_metrics example_rd example_rd3 example_edge_task True)
       = [''mcc'', ''acc'', ''precision'', ''recall'', ''f1'']"
  by (simp add: EdgeProbingTask_get_metrics_eq)

end
